theory Spec2Isabelle
  imports Complex_Main "HOL-Library.Sublist"
begin

chapter \<open>StudySim AI: the generation service (services/geminiService.ts)\<close>

text \<open>
  The service drives a remote content-generation endpoint. Every exported function is an
  async function: here it takes the client and the list of the requests issued so far, and
  returns its outcome (\<open>Inl\<close> a thrown error, \<open>Inr\<close> the resolved value) together with the
  extended list. JavaScript strings are modelled as \<open>string\<close>; a character outside ASCII
  stands as its UTF-8 bytes.
\<close>

section \<open>Strings\<close>

text \<open>\<^verbatim>\<open>s.includes(needle)\<close>: the needle occurs somewhere in \<open>s\<close>.\<close>

fun str_includes :: "string \<Rightarrow> string \<Rightarrow> bool" where
  "str_includes [] needle = (needle = [])"
| "str_includes (c # cs) needle = (prefix needle (c # cs) \<or> str_includes cs needle)"

text \<open>
  The first occurrence of a literal: the text before it and the text after it, as a
  regular-expression engine finds it scanning from the left.
\<close>

fun split_first :: "string \<Rightarrow> string \<Rightarrow> (string \<times> string) option" where
  "split_first needle [] = (if needle = [] then Some ([], []) else None)"
| "split_first needle (c # cs) =
     (if prefix needle (c # cs) then Some ([], drop (length needle) (c # cs))
      else map_option (\<lambda>(before, after). (c # before, after)) (split_first needle cs))"

text \<open>
  \<^verbatim>\<open>text.match(/OPENING([\s\S]*?)```/)\<close>, giving capture group 1 or \<open>None\<close> for
  \<^verbatim>\<open>null\<close>. At one start position the literal opener must stand there, and the lazy group
  ends at the first closing fence after it; the engine tries the start positions from the
  left.
\<close>

definition match_here :: "string \<Rightarrow> string \<Rightarrow> string option" where
  "match_here opener s =
     (if prefix opener s
      then map_option fst (split_first ''```'' (drop (length opener) s))
      else None)"

fun fence_match :: "string \<Rightarrow> string \<Rightarrow> string option" where
  "fence_match opener [] = match_here opener []"
| "fence_match opener (c # cs) =
     (case match_here opener (c # cs) of
        Some inner \<Rightarrow> Some inner
      | None \<Rightarrow> fence_match opener cs)"

text \<open>\<^verbatim>\<open>x || d\<close> on a possibly undefined string: \<^verbatim>\<open>undefined\<close> and \<^verbatim>\<open>""\<close> are falsy.\<close>

definition truthy :: "string option \<Rightarrow> bool" where
  "truthy x = (case x of None \<Rightarrow> False | Some s \<Rightarrow> s \<noteq> [])"

definition or_else :: "string option \<Rightarrow> string \<Rightarrow> string" where
  "or_else x d = (case x of None \<Rightarrow> d | Some s \<Rightarrow> if s = [] then d else s)"

section \<open>Errors\<close>

text \<open>
  A thrown value is an error object: its \<^verbatim>\<open>name\<close> and its \<^verbatim>\<open>message\<close>, which may be
  undefined.
\<close>

record js_error =
  name :: string
  message :: "string option"

text \<open>\<^verbatim>\<open>new Error(msg)\<close>\<close>

definition Error :: "string \<Rightarrow> js_error" where
  "Error msg = \<lparr>name = ''Error'', message = Some msg\<rparr>"

text \<open>
  The test of both catch blocks:
  \<^verbatim>\<open>error.message?.includes("404") || error.message?.includes("not found")\<close>
\<close>

definition not_available :: "js_error \<Rightarrow> bool" where
  "not_available error =
     (case message error of
        None \<Rightarrow> False
      | Some m \<Rightarrow> str_includes m ''404'' \<or> str_includes m ''not found'')"

section \<open>Requests and responses of the content endpoint\<close>

datatype tool = googleSearch

datatype part = Text string | InlineData string string

datatype schema =
    ARRAY schema
  | OBJECT "(string \<times> schema) list" "string list"
  | NUMBER
  | STRING

record config =
  systemInstruction :: "string option"
  tools :: "tool list option"
  thinkingBudget :: "nat option"
  responseMimeType :: "string option"
  responseSchema :: "schema option"

definition no_config :: config where
  "no_config = \<lparr>systemInstruction = None, tools = None, thinkingBudget = None,
     responseMimeType = None, responseSchema = None\<rparr>"

record params =
  contents :: "part list"
  config :: config

record request = params +
  model :: string

record web_source =
  title :: "string option"
  uri :: "string option"

record grounding_chunk =
  web :: "web_source option"

record grounding_metadata =
  groundingChunks :: "grounding_chunk list option"

record candidate =
  groundingMetadata :: "grounding_metadata option"

record response =
  text_response :: "string option"
  candidates :: "candidate list option"

text \<open>
  The client returned by \<^verbatim>\<open>getAiClient()\<close>. What the remote answers may depend on the
  requests it has seen, so the client is a function of the earlier requests and the request.
\<close>

type_synonym remote = "request list \<Rightarrow> request \<Rightarrow> js_error + response"

definition generateContent ::
  "remote \<Rightarrow> request \<Rightarrow> request list \<Rightarrow> (js_error + response) \<times> request list" where
  "generateContent ai req calls = (ai calls req, calls @ [req])"

text \<open>\<^verbatim>\<open>{ ...params, model }\<close>\<close>

definition with_model :: "params \<Rightarrow> string \<Rightarrow> request" where
  "with_model p m = \<lparr>contents = contents p, config = config p, model = m\<rparr>"

section \<open>Fallback from the Pro model to Flash\<close>

definition generateContentWithFallback ::
  "remote \<Rightarrow> string \<Rightarrow> params \<Rightarrow> request list \<Rightarrow> (js_error + response) \<times> request list" where
  "generateContentWithFallback ai m p calls =
     (case generateContent ai (with_model p m) calls of
        (Inr response, calls') \<Rightarrow> (Inr response, calls')
      | (Inl error, calls') \<Rightarrow>
          if not_available error
          then generateContent ai (with_model p ''gemini-2.5-flash'') calls'
          else (Inl error, calls'))"

section \<open>JSON values and \<^verbatim>\<open>JSON.parse\<close>\<close>

text \<open>
  \<^verbatim>\<open>JSON.parse\<close> belongs to the JavaScript runtime, so the service functions below take
  the parser as a parameter and their properties hold for every parser. For concrete
  inputs, \<open>JSON_parse\<close> reads the JSON grammar (ECMA-404): white space, the three literals,
  numbers, strings with their escapes, arrays and objects (a repeated key keeps its last
  value, and the keys stay in the order of the text, where the runtime lists integer-like
  keys first). A number is the exact value of its numeral, where the runtime rounds to a
  double; each escape \<^verbatim>\<open>\uXXXX\<close> is stored alone as UTF-8 bytes, where the runtime joins
  a surrogate pair. The two agree on texts with small whole numbers, no such keys and no
  such escapes, and the concrete inputs below are of that kind. The recursion carries fuel, one unit for each nested value and each further
  element or member, and starts with more units than the text has characters.
\<close>

datatype json =
    JNull
  | JBool bool
  | JNumber rat
  | JString string
  | JArray "json list"
  | JObject "(string \<times> json) list"

definition is_ws :: "char \<Rightarrow> bool" where
  "is_ws c = (c = CHR '' '' \<or> c = CHR 0x09 \<or> c = CHR 0x0A \<or> c = CHR 0x0D)"

definition skip_ws :: "string \<Rightarrow> string" where
  "skip_ws = dropWhile is_ws"

definition strip_prefix :: "string \<Rightarrow> string \<Rightarrow> string option" where
  "strip_prefix p s = (if prefix p s then Some (drop (length p) s) else None)"

definition is_digit :: "char \<Rightarrow> bool" where
  "is_digit c = (48 \<le> (of_char c :: nat) \<and> (of_char c :: nat) \<le> 57)"

definition digits_value :: "string \<Rightarrow> nat" where
  "digits_value ds = foldl (\<lambda>acc d. 10 * acc + ((of_char d :: nat) - 48)) 0 ds"

definition hex_value :: "char \<Rightarrow> nat option" where
  "hex_value c =
     (let n = (of_char c :: nat) in
      if 48 \<le> n \<and> n \<le> 57 then Some (n - 48)
      else if 65 \<le> n \<and> n \<le> 70 then Some (n - 55)
      else if 97 \<le> n \<and> n \<le> 102 then Some (n - 87)
      else None)"

definition utf8 :: "nat \<Rightarrow> string" where
  "utf8 n =
     (if n < 128 then [char_of n]
      else if n < 2048 then [char_of (192 + n div 64), char_of (128 + n mod 64)]
      else [char_of (224 + n div 4096), char_of (128 + n div 64 mod 64), char_of (128 + n mod 64)])"

definition parse_escape :: "string \<Rightarrow> (string \<times> string) option" where
  \<open>parse_escape s =
     (case s of
        [] \<Rightarrow> None
      | e # r \<Rightarrow>
          if e = CHR ''"'' \<or> e = CHR 0x5C \<or> e = CHR ''/'' then Some ([e], r)
          else if e = CHR ''b'' then Some ([CHR 0x08], r)
          else if e = CHR ''f'' then Some ([CHR 0x0C], r)
          else if e = CHR ''n'' then Some ([CHR 0x0A], r)
          else if e = CHR ''r'' then Some ([CHR 0x0D], r)
          else if e = CHR ''t'' then Some ([CHR 0x09], r)
          else if e = CHR ''u'' then
            (case map hex_value (take 4 r) of
               [Some a, Some b, Some c, Some d] \<Rightarrow>
                 Some (utf8 (((a * 16 + b) * 16 + c) * 16 + d), drop 4 r)
             | _ \<Rightarrow> None)
          else None)\<close>

fun parse_chars :: "nat \<Rightarrow> string \<Rightarrow> (string \<times> string) option" where
  \<open>parse_chars 0 s = None\<close>
| \<open>parse_chars (Suc n) [] = None\<close>
| \<open>parse_chars (Suc n) (c # cs) =
     (if c = CHR ''"'' then Some ([], cs)
      else if c = CHR 0x5C then
        (case parse_escape cs of
           None \<Rightarrow> None
         | Some (decoded, r) \<Rightarrow> map_option (\<lambda>(str, r'). (decoded @ str, r')) (parse_chars n r))
      else if (of_char c :: nat) < 32 then None
      else map_option (\<lambda>(str, r'). (c # str, r')) (parse_chars n cs))\<close>

definition parse_number :: "string \<Rightarrow> (rat \<times> string) option" where
  \<open>parse_number s =
     (let (negative, s1) = (case strip_prefix ''-'' s of Some r \<Rightarrow> (True, r) | None \<Rightarrow> (False, s));
          ip = takeWhile is_digit s1; s2 = dropWhile is_digit s1
      in if ip = [] \<or> (1 < length ip \<and> hd ip = CHR ''0'') then None
         else
           (case (case strip_prefix ''.'' s2 of
                    None \<Rightarrow> Some ([], s2)
                  | Some r \<Rightarrow> if takeWhile is_digit r = [] then None
                              else Some (takeWhile is_digit r, dropWhile is_digit r)) of
              None \<Rightarrow> None
            | Some (fp, s3) \<Rightarrow>
                (case (if s3 \<noteq> [] \<and> (hd s3 = CHR ''e'' \<or> hd s3 = CHR ''E'') then
                         (let (down, s4) =
                                (case strip_prefix ''-'' (tl s3) of
                                   Some r \<Rightarrow> (True, r)
                                 | None \<Rightarrow>
                                     (case strip_prefix ''+'' (tl s3) of
                                        Some r \<Rightarrow> (False, r)
                                      | None \<Rightarrow> (False, tl s3)))
                          in if takeWhile is_digit s4 = [] then None
                             else Some (down, digits_value (takeWhile is_digit s4),
                                        dropWhile is_digit s4))
                       else Some (False, 0, s3)) of
                   None \<Rightarrow> None
                 | Some (down, ex, s5) \<Rightarrow>
                     (let mantissa = of_nat (digits_value ip)
                                      + of_nat (digits_value fp) / 10 ^ length fp;
                          scaled = (if down then mantissa / 10 ^ ex else mantissa * 10 ^ ex)
                      in Some (if negative then - scaled else scaled, s5)))))\<close>

fun update_member :: "string \<Rightarrow> json \<Rightarrow> (string \<times> json) list \<Rightarrow> (string \<times> json) list" where
  "update_member k v [] = [(k, v)]"
| "update_member k v ((k', v') # ms) =
     (if k = k' then (k, v) # ms else (k', v') # update_member k v ms)"

fun parse_value :: "nat \<Rightarrow> string \<Rightarrow> (json \<times> string) option"
and parse_elements :: "nat \<Rightarrow> json list \<Rightarrow> string \<Rightarrow> (json \<times> string) option"
and parse_members :: "nat \<Rightarrow> (string \<times> json) list \<Rightarrow> string \<Rightarrow> (json \<times> string) option"
where
  \<open>parse_value 0 s = None\<close>
| \<open>parse_value (Suc n) s =
     (let s = skip_ws s in
      case strip_prefix ''null'' s of Some r \<Rightarrow> Some (JNull, r) | None \<Rightarrow>
      case strip_prefix ''true'' s of Some r \<Rightarrow> Some (JBool True, r) | None \<Rightarrow>
      case strip_prefix ''false'' s of Some r \<Rightarrow> Some (JBool False, r) | None \<Rightarrow>
      case strip_prefix ''"'' s of
        Some r \<Rightarrow> map_option (\<lambda>(str, r'). (JString str, r')) (parse_chars (Suc (length r)) r)
      | None \<Rightarrow>
      case strip_prefix ''['' s of
        Some r \<Rightarrow>
          (case strip_prefix '']'' (skip_ws r) of
             Some r' \<Rightarrow> Some (JArray [], r')
           | None \<Rightarrow> parse_elements n [] r)
      | None \<Rightarrow>
      case strip_prefix ''{'' s of
        Some r \<Rightarrow>
          (case strip_prefix ''}'' (skip_ws r) of
             Some r' \<Rightarrow> Some (JObject [], r')
           | None \<Rightarrow> parse_members n [] r)
      | None \<Rightarrow> map_option (\<lambda>(q, r). (JNumber q, r)) (parse_number s))\<close>
| \<open>parse_elements 0 acc s = None\<close>
| \<open>parse_elements (Suc n) acc s =
     (case parse_value n s of
        None \<Rightarrow> None
      | Some (v, r) \<Rightarrow>
          (case strip_prefix '','' (skip_ws r) of
             Some r' \<Rightarrow> parse_elements n (acc @ [v]) r'
           | None \<Rightarrow>
               (case strip_prefix '']'' (skip_ws r) of
                  Some r' \<Rightarrow> Some (JArray (acc @ [v]), r')
                | None \<Rightarrow> None)))\<close>
| \<open>parse_members 0 acc s = None\<close>
| \<open>parse_members (Suc n) acc s =
     (case strip_prefix ''"'' (skip_ws s) of
        None \<Rightarrow> None
      | Some r \<Rightarrow>
          (case parse_chars (Suc (length r)) r of
             None \<Rightarrow> None
           | Some (k, r1) \<Rightarrow>
               (case strip_prefix '':'' (skip_ws r1) of
                  None \<Rightarrow> None
                | Some r2 \<Rightarrow>
                    (case parse_value n r2 of
                       None \<Rightarrow> None
                     | Some (v, r3) \<Rightarrow>
                         (case strip_prefix '','' (skip_ws r3) of
                            Some r' \<Rightarrow> parse_members n (update_member k v acc) r'
                          | None \<Rightarrow>
                              (case strip_prefix ''}'' (skip_ws r3) of
                                 Some r' \<Rightarrow> Some (JObject (update_member k v acc), r')
                               | None \<Rightarrow> None))))))\<close>

definition parse_text :: "string \<Rightarrow> json option" where
  "parse_text s =
     (case parse_value (Suc (length s)) s of
        None \<Rightarrow> None
      | Some (v, r) \<Rightarrow> if skip_ws r = [] then Some v else None)"

text \<open>
  A failed parse throws a \<^verbatim>\<open>SyntaxError\<close>; its message is the engine's own, and a fixed
  text stands for it.
\<close>

definition JSON_parse :: "string \<Rightarrow> js_error + json" where
  "JSON_parse s =
     (case parse_text s of
        None \<Rightarrow> Inl \<lparr>name = ''SyntaxError'', message = Some ''Unexpected token in JSON''\<rparr>
      | Some v \<Rightarrow> Inr v)"

section \<open>Fact retrieval\<close>

definition facts_prompt :: \<open>string \<Rightarrow> string\<close> where
  \<open>facts_prompt topic = concat
    [''\<newline>'',
     ''    Perform a Google Search for the topic: "'',
     topic,
     ''".\<newline>'',
     ''    \<newline>'',
     ''    Tasks:\<newline>'',
     ''    1. Extract exactly 20 interesting, obscure, or key facts about this topic.\<newline>'',
     ''    2. Write a comprehensive summary of the search results to act as "Context" for a deep study guide.\<newline>'',
     ''\<newline>'',
     ''    Output Format:\<newline>'',
     ''    You must output strictly valid JSON. Do not include markdown formatting (like ```json).\<newline>'',
     ''    The JSON structure must be:\<newline>'',
     ''    {\<newline>'',
     ''      "facts": ["Fact 1", "Fact 2", ...],\<newline>'',
     ''      "searchContext": "Detailed summary..."\<newline>'',
     ''    }\<newline>'',
     ''    '']\<close>

definition facts_request :: "string \<Rightarrow> request" where
  "facts_request topic =
     \<lparr>contents = [Text (facts_prompt topic)],
      config = no_config\<lparr>tools := Some [googleSearch]\<rparr>,
      model = ''gemini-2.5-flash''\<rparr>"

text \<open>
  The cleaning step:
  \<^verbatim>\<open>const match = text.match(/```json([\s\S]*?)```/) || text.match(/```([\s\S]*?)```/);\<close>
  \<^verbatim>\<open>if (match) { text = match[1]; }\<close>
\<close>

definition unwrap_json :: "string \<Rightarrow> string" where
  "unwrap_json text =
     (case (case fence_match ''```json'' text of
              Some inner \<Rightarrow> Some inner
            | None \<Rightarrow> fence_match ''```'' text) of
        Some inner \<Rightarrow> inner
      | None \<Rightarrow> text)"

definition default_facts :: json where
  "default_facts =
     JObject
       [(''facts'',
         JArray [JString ''Learning is a journey.'', JString ''Stay curious.'',
                 JString ''Knowledge is power.'']),
        (''searchContext'', JString [])]"

text \<open>The body of the try block: the call, the cleaning and the parse.\<close>

definition facts_try ::
  "(string \<Rightarrow> js_error + json) \<Rightarrow> remote \<Rightarrow> string \<Rightarrow> request list
     \<Rightarrow> (js_error + json) \<times> request list" where
  "facts_try parse ai topic calls =
     (case generateContent ai (facts_request topic) calls of
        (Inl error, calls') \<Rightarrow> (Inl error, calls')
      | (Inr response, calls') \<Rightarrow>
          (parse (unwrap_json (or_else (text_response response) ''{}'')), calls'))"

definition getInterestingFacts ::
  "(string \<Rightarrow> js_error + json) \<Rightarrow> remote \<Rightarrow> string \<Rightarrow> request list
     \<Rightarrow> (js_error + json) \<times> request list" where
  "getInterestingFacts parse ai topic calls =
     (case facts_try parse ai topic calls of
        (Inr facts, calls') \<Rightarrow> (Inr facts, calls')
      | (Inl e, calls') \<Rightarrow> (Inr default_facts, calls'))"

section \<open>Step 1: analysis\<close>

record mediaData =
  data :: string
  mimeType :: string

record StudyPlan =
  markdownPlan :: string
  sources :: "web_source list"

definition systemPrompt_intro :: \<open>string\<close> where
  \<open>systemPrompt_intro = concat
    [''\<newline>'',
     ''  You are "StudySim AI" - Phase 1: Background Processor & Architect.\<newline>'',
     ''  \<newline>'',
     ''  Your goal is to perform a DEEP, SILENT BACKGROUND ANALYSIS to create a robust SPECIFICATION for a learning module and a '',
     [CHR 0x27],
     ''Real-Life Simulator'',
     [CHR 0x27],
     ''.\<newline>'',
     ''  '']\<close>

definition systemPrompt_context :: \<open>string \<Rightarrow> string\<close> where
  \<open>systemPrompt_context searchContext = concat
    [''\<newline>'',
     ''      ### CONTEXT FROM WEB SEARCH\<newline>'',
     ''      Use the following verified context as your primary source of truth:\<newline>'',
     ''      "'',
     searchContext,
     ''"\<newline>'',
     ''      \<newline>'',
     ''      (Do not perform a new Google Search unless absolutely necessary for specific missing details).\<newline>'',
     ''      '']\<close>

definition systemPrompt_requirements :: \<open>string\<close> where
  \<open>systemPrompt_requirements = concat
    [''\<newline>'',
     ''  ### BACKGROUND PROCESSING REQUIREMENTS (Execute Silently)\<newline>'',
     ''  1. **Autonomous Concept Analysis**:\<newline>'',
     ''     - Evaluate the user'',
     [CHR 0x27],
     ''s idea for flaws, missing logic, or weak structure.\<newline>'',
     ''     - Identify opportunities for improvement immediately.\<newline>'',
     ''  2. **Visual System Quality Check**:\<newline>'',
     ''     - Verify typography, UI elements, and color themes.\<newline>'',
     ''     - If they fail clarity/aesthetics, AUTOMATICALLY REDESIGN them to meet professional standards.\<newline>'',
     ''  3. **Inspiration Retrieval**:\<newline>'',
     ''     - If context is missing, use Google Search to find reference patterns.\<newline>'',
     ''  4. **Technical Planning (CRITICAL)**:\<newline>'',
     ''     - Define the simulator'',
     [CHR 0x27],
     ''s logic for HTML5/Canvas/CSS implementation.\<newline>'',
     ''     - **MANDATORY INTERACTIVITY**: You MUST identify at least 3 adjustable variables (e.g., Gravity, Speed, Temperature, Angle).\<newline>'',
     ''     - **UI CONTROLS**: Define specific HTML input controls (Range Sliders, Toggle Switches, Reset Buttons) that the user will use to manipulate these variables in real-time.\<newline>'',
     ''     - The simulation MUST be designed to use `requestAnimationFrame` and update immediately when controls change.\<newline>'',
     ''     - Emphasize CSS for high-quality UI and animations.\<newline>'',
     ''  5. **Visual Excellence Enforcement**:\<newline>'',
     ''     - Refine color psychology (e.g., "Calming Teal" for focus, "Energetic Orange" for gamification).\<newline>'',
     ''  6. **Internal Iteration**:\<newline>'',
     ''     - Review your own plan twice before outputting.\<newline>'',
     ''  \<newline>'',
     ''  ### OUTPUT FORMAT (The Stable Foundation)\<newline>'',
     ''  Return a structured Markdown plan with these headers:\<newline>'',
     ''  \<newline>'',
     ''  ## '',
     [CHR 0xF0, CHR 0x9F, CHR 0xA7, CHR 0x90],
     '' Analysis & Context\<newline>'',
     ''  (Overview of the topic, addressing any identified flaws or improvements)\<newline>'',
     ''  \<newline>'',
     ''  ## '',
     [CHR 0xF0, CHR 0x9F, CHR 0x8E, CHR 0xAE],
     '' Simulator Concept\<newline>'',
     ''  (Technical specification: List of Interactive Controls (Sliders/Buttons), Physics Logic, Interaction Flow, Visual feedback. Be specific about the HTML5 implementation.)\<newline>'',
     ''  \<newline>'',
     ''  ## '',
     [CHR 0xF0, CHR 0x9F, CHR 0x8E, CHR 0xA8],
     '' Visual Identity\<newline>'',
     ''  (Defined Typography, Specific Hex Colors, Layout Structure, and "Vibe". This is the blueprint for the code.)\<newline>'',
     ''  \<newline>'',
     ''  ## '',
     [CHR 0xF0, CHR 0x9F, CHR 0x94, CHR 0x8D],
     '' Verified Sources\<newline>'',
     ''  (List credible sources found during research)\<newline>'',
     ''  '']\<close>

text \<open>
  \<^verbatim>\<open>systemPrompt\<close> after its three steps: the introduction, the context block under
  \<^verbatim>\<open>if (searchContext)\<close>, and the requirements.
\<close>

definition analyze_systemPrompt :: "string option \<Rightarrow> string" where
  "analyze_systemPrompt searchContext =
     systemPrompt_intro
     @ (case searchContext of
          None \<Rightarrow> []
        | Some summary \<Rightarrow> if summary = [] then [] else systemPrompt_context summary)
     @ systemPrompt_requirements"

text \<open>
  \<^verbatim>\<open>parts\<close>: the media and its caption when media is given, then
  \<^verbatim>\<open>input || "Analyze the provided media."\<close>
\<close>

definition analyze_parts :: "string \<Rightarrow> mediaData option \<Rightarrow> bool \<Rightarrow> part list" where
  "analyze_parts input media isVideoAnalysis =
     (case media of
        None \<Rightarrow> []
      | Some md \<Rightarrow>
          [InlineData (data md) (mimeType md),
           Text (if isVideoAnalysis
                 then ''Analyze this video context as the primary source material.''
                 else ''Analyze this image as the primary source material.'')])
     @ [Text (if input = [] then ''Analyze the provided media.'' else input)]"

text \<open>\<^verbatim>\<open>const tools = searchContext ? [] : [{ googleSearch: {} }];\<close>\<close>

definition analyze_tools :: "string option \<Rightarrow> tool list" where
  "analyze_tools searchContext = (if truthy searchContext then [] else [googleSearch])"

definition analyze_params ::
  "string \<Rightarrow> mediaData option \<Rightarrow> bool \<Rightarrow> string option \<Rightarrow> params" where
  "analyze_params input media isVideoAnalysis searchContext =
     \<lparr>contents = analyze_parts input media isVideoAnalysis,
      config = no_config
        \<lparr>systemInstruction := Some (analyze_systemPrompt searchContext),
         tools := Some (analyze_tools searchContext),
         thinkingBudget := Some 16384\<rparr>\<rparr>"

text \<open>
  \<^verbatim>\<open>response.candidates?.[0]?.groundingMetadata?.groundingChunks || []\<close>, filtered to the
  chunks with a web uri and mapped to title and uri.
\<close>

definition grounding_sources :: "response \<Rightarrow> web_source list" where
  "grounding_sources response =
     (let chunks =
            (case candidates response of
               None \<Rightarrow> []
             | Some [] \<Rightarrow> []
             | Some (first # _) \<Rightarrow>
                 (case groundingMetadata first of
                    None \<Rightarrow> []
                  | Some metadata \<Rightarrow>
                      (case groundingChunks metadata of None \<Rightarrow> [] | Some cs \<Rightarrow> cs)))
      in List.map_filter
           (\<lambda>c. case web c of
                  None \<Rightarrow> None
                | Some w \<Rightarrow>
                    if truthy (uri w) then Some \<lparr>title = title w, uri = uri w\<rparr> else None)
           chunks)"

definition analyzeStudyTopic ::
  "remote \<Rightarrow> string \<Rightarrow> mediaData option \<Rightarrow> bool \<Rightarrow> string option \<Rightarrow> request list
     \<Rightarrow> (js_error + StudyPlan) \<times> request list" where
  "analyzeStudyTopic ai input media isVideoAnalysis searchContext calls =
     (case generateContentWithFallback ai ''gemini-3-pro-preview''
             (analyze_params input media isVideoAnalysis searchContext) calls of
        (Inr response, calls') \<Rightarrow>
          (Inr \<lparr>markdownPlan = or_else (text_response response) ''No plan generated.'',
                sources = grounding_sources response\<rparr>, calls')
      | (Inl error, calls') \<Rightarrow> (Inl error, calls'))"

section \<open>Step 3: the simulator\<close>

definition simulator_systemPrompt :: \<open>string\<close> where
  \<open>simulator_systemPrompt = concat
    [''\<newline>'',
     ''  You are "StudySim AI" - Phase 3: Simulator Architect.\<newline>'',
     ''  \<newline>'',
     ''  You have received a specific request to build an Interactive Simulator.\<newline>'',
     ''  A FULL RESEARCH BUNDLE (Plan + Context + Notes) is attached to this request.\<newline>'',
     ''  \<newline>'',
     ''  ### INSTRUCTIONS\<newline>'',
     ''  1. **Generate The Simulator**:\<newline>'',
     ''     - Write the SINGLE-FILE HTML5 application (HTML+CSS+JS).\<newline>'',
     ''     - **Constraint**: IT MUST MATCH the "Visual Identity" and "Simulator Concept" from the attached RESEARCH BUNDLE EXACTLY.\<newline>'',
     ''     - **Constraint**: Use Tailwind CSS (via CDN) or internal CSS for "Apple-like" clean design.\<newline>'',
     ''     - **Constraint - LAYOUT & RESPONSIVENESS (CRITICAL)**: \<newline>'',
     ''       - The simulator MUST be fully responsive (Mobile, Tablet, Desktop).\<newline>'',
     ''       - Use CSS Grid or Flexbox.\<newline>'',
     ''       - **Desktop View**: Sidebar for controls (left or right), Canvas fills the rest.\<newline>'',
     ''       - **Mobile View**: Stack controls below the canvas.\<newline>'',
     ''       - The Canvas MUST resize dynamically (`window.addEventListener('',
     [CHR 0x27],
     ''resize'',
     [CHR 0x27],
     '', ...)`) to fill available space.\<newline>'',
     ''     - **Constraint - PREVENT OVERLAPPING**:\<newline>'',
     ''       - Do NOT use absolute positioning for layout structure, only for specific overlays.\<newline>'',
     ''       - Ensure distinct, non-overlapping containers for "Visualization" and "Controls".\<newline>'',
     ''       - **Reset Logic**: Your initialization code MUST clear any existing canvases/elements (`container.innerHTML = '',
     [CHR 0x27],
     [CHR 0x27],
     ''`) before drawing to prevent elements stacking on top of each other when resized or reset.\<newline>'',
     ''     - **Context Awareness**: Use the concepts explained in the "Smart Notes" to inform the simulation logic and labels.\<newline>'',
     ''     - **CRITICAL REQUIREMENT**: You MUST implement a **"Control Panel"** with actual `<input type="range">` sliders and `<button>` elements.\<newline>'',
     ''     - **CRITICAL REQUIREMENT**: Hook these inputs to JavaScript variables so the simulation updates in **REAL-TIME**.\<newline>'',
     ''     - **NEW FEATURE**: Add a **"Snapshot"** button in the control panel.\<newline>'',
     ''     - **TOOLTIPS & EXPLANATIONS (REQUIRED)**:\<newline>'',
     ''       - Every interactive control (input, button) MUST have a `title` attribute explaining its function (e.g. `title="Controls the gravitational constant"`).\<newline>'',
     ''       - Add a small text label or "info" icon next to complex variables that reveals a brief explanation on hover.\<newline>'',
     ''       - The simulator MUST be self-explanatory.\<newline>'',
     ''     - **ANIMATION & VISUAL FEEDBACK (HIGH PRIORITY)**:\<newline>'',
     ''       - **Smoothness**: Use `requestAnimationFrame` for the main loop. Implement linear interpolation (Lerp) for smooth movement of objects to prevent jitter.\<newline>'',
     ''       - **UI Polish**: Use custom CSS for sliders (e.g., rounded tracks, larger thumbs). Add hover states and active states (scale/color shift) to all interactive elements.\<newline>'',
     ''       - **Glassmorphism**: Use semi-transparent backgrounds with backdrop-blur for the control panel or overlay elements.\<newline>'',
     ''       - **Transitions**: Use CSS transitions (`transition: all 0.3s ease`) for any DOM element changes.\<newline>'',
     ''       - **Dynamic Feedback**: Display current values next to sliders. Add tooltips or small text indicators when values change.\<newline>'',
     ''     - WRAP CODE in ```html```.\<newline>'',
     ''  '']\<close>

definition simulator_params :: "string \<Rightarrow> string \<Rightarrow> params" where
  "simulator_params approvedPlan smartNotes =
     \<lparr>contents =
        [Text (''ATTACHED RESEARCH CONTEXT (Architecture Plan):\<newline>'' @ approvedPlan),
         Text (''ATTACHED CONTENT (Smart Notes):\<newline>'' @ smartNotes),
         Text ''Proceed to generate the Interactive Simulator HTML5 code based on the attached research.''],
      config = no_config
        \<lparr>systemInstruction := Some simulator_systemPrompt,
         thinkingBudget := Some 32768\<rparr>\<rparr>"

text \<open>
  \<^verbatim>\<open>const match = text.match(/```html([\s\S]*?)```/); return match ? match[1] : "";\<close>
\<close>

definition extract_html :: "string \<Rightarrow> string" where
  "extract_html text =
     (case fence_match ''```html'' text of Some inner \<Rightarrow> inner | None \<Rightarrow> [])"

definition generateStudySimulator ::
  "remote \<Rightarrow> string \<Rightarrow> string \<Rightarrow> request list \<Rightarrow> (js_error + string) \<times> request list" where
  "generateStudySimulator ai approvedPlan smartNotes calls =
     (case generateContentWithFallback ai ''gemini-3-pro-preview''
             (simulator_params approvedPlan smartNotes) calls of
        (Inr response, calls') \<Rightarrow> (Inr (extract_html (or_else (text_response response) [])), calls')
      | (Inl error, calls') \<Rightarrow> (Inl error, calls'))"

section \<open>The quiz generator\<close>

definition quiz_prompt :: \<open>string \<Rightarrow> string\<close> where
  \<open>quiz_prompt context = concat
    [''\<newline>'',
     ''    Based on the following study notes, generate 5 multiple-choice questions (MCQs).\<newline>'',
     ''    The questions should test conceptual understanding and critical thinking.\<newline>'',
     ''\<newline>'',
     ''    STUDY CONTENT:\<newline>'',
     ''    '',
     take 10000 context,
     ''\<newline>'',
     ''    '']\<close>

definition quiz_schema :: schema where
  "quiz_schema =
     ARRAY
       (OBJECT
          [(''id'', NUMBER), (''question'', STRING), (''options'', ARRAY STRING),
           (''correctAnswer'', NUMBER), (''explanation'', STRING)]
          [''id'', ''question'', ''options'', ''correctAnswer'', ''explanation''])"

definition quiz_request :: "string \<Rightarrow> request" where
  "quiz_request context =
     \<lparr>contents = [Text (quiz_prompt context)],
      config = no_config
        \<lparr>responseMimeType := Some ''application/json'',
         responseSchema := Some quiz_schema\<rparr>,
      model = ''gemini-2.5-flash''\<rparr>"

text \<open>
  The body of the try block; the catch block returns the empty array. The prompt holds
  \<^verbatim>\<open>context.slice(0, 10000)\<close>, the first 10000 characters of the notes: UTF-16 units in the
  source, bytes here, the same thing for notes in ASCII.
\<close>

definition quiz_try ::
  "(string \<Rightarrow> js_error + json) \<Rightarrow> remote \<Rightarrow> string \<Rightarrow> request list
     \<Rightarrow> (js_error + json) \<times> request list" where
  "quiz_try parse ai context calls =
     (case generateContent ai (quiz_request context) calls of
        (Inl error, calls') \<Rightarrow> (Inl error, calls')
      | (Inr response, calls') \<Rightarrow> (parse (or_else (text_response response) ''[]''), calls'))"

definition generateQuiz ::
  "(string \<Rightarrow> js_error + json) \<Rightarrow> remote \<Rightarrow> string \<Rightarrow> request list
     \<Rightarrow> (js_error + json) \<times> request list" where
  "generateQuiz parse ai context calls =
     (case quiz_try parse ai context calls of
        (Inr questions, calls') \<Rightarrow> (Inr questions, calls')
      | (Inl e, calls') \<Rightarrow> (Inr (JArray []), calls'))"

section \<open>Veo video generation\<close>

datatype aspect_ratio = Ratio_16_9 | Ratio_9_16

record video_config =
  numberOfVideos :: nat
  resolution :: string
  aspectRatio :: aspect_ratio

record image_input =
  imageBytes :: string
  mimeType_image :: string

record video_params =
  model_video :: string
  prompt_video :: string
  config_video :: video_config
  image_video :: "image_input option"

record video =
  uri_video :: "string option"

record generated_video =
  video :: "video option"

record videos_response =
  generatedVideos :: "generated_video list option"

record operation =
  done_operation :: bool
  response_operation :: "videos_response option"

text \<open>
  The video side of the client: \<^verbatim>\<open>ai.models.generateVideos\<close> submits the job, and
  \<^verbatim>\<open>ai.operations.getVideosOperation\<close> fetches its status. What a fetch reports may change
  from one fetch to the next, so it is a function of the number of earlier fetches and of
  the operation passed in.
\<close>

record video_client =
  generateVideos :: "video_params \<Rightarrow> js_error + operation"
  getVideosOperation :: "nat \<Rightarrow> operation \<Rightarrow> js_error + operation"

text \<open>The time spent in \<^verbatim>\<open>setTimeout\<close>, in milliseconds, and the number of fetches.\<close>

record poller =
  slept :: nat
  fetches :: nat

definition veo_params ::
  "string \<Rightarrow> string option \<Rightarrow> string option \<Rightarrow> aspect_ratio option \<Rightarrow> video_params" where
  "veo_params prompt inputImageBase64 inputImageMime ratio =
     \<lparr>model_video = ''veo-3.1-fast-generate-preview'',
      prompt_video = prompt,
      config_video =
        \<lparr>numberOfVideos = 1, resolution = ''1080p'',
         aspectRatio = (case ratio of None \<Rightarrow> Ratio_16_9 | Some r \<Rightarrow> r)\<rparr>,
      image_video =
        (case (inputImageBase64, inputImageMime) of
           (Some bytes, Some mime) \<Rightarrow>
             if bytes \<noteq> [] \<and> mime \<noteq> []
             then Some \<lparr>imageBytes = bytes, mimeType_image = mime\<rparr>
             else None
         | _ \<Rightarrow> None)\<rparr>"

text \<open>
  The loop \<^verbatim>\<open>while (!operation.done) { sleep 5000; operation = getVideosOperation(..) }\<close>.
  It has no bound: \<open>None\<close> is the loop that never exits.
\<close>

partial_function (option) poll ::
  "(nat \<Rightarrow> operation \<Rightarrow> js_error + operation) \<Rightarrow> operation \<Rightarrow> poller
     \<Rightarrow> ((js_error + operation) \<times> poller) option" where
  "poll fetch operation clock =
     (if done_operation operation then Some (Inr operation, clock)
      else
        (case fetch (fetches clock) operation of
           Inl error \<Rightarrow>
             Some (Inl error, \<lparr>slept = slept clock + 5000, fetches = Suc (fetches clock)\<rparr>)
         | Inr operation' \<Rightarrow>
             poll fetch operation'
               \<lparr>slept = slept clock + 5000, fetches = Suc (fetches clock)\<rparr>))"

text \<open>\<^verbatim>\<open>operation.response?.generatedVideos?.[0]?.video?.uri\<close>\<close>

definition first_video_uri :: "operation \<Rightarrow> string option" where
  "first_video_uri operation =
     (case response_operation operation of
        None \<Rightarrow> None
      | Some r \<Rightarrow>
          (case generatedVideos r of
             None \<Rightarrow> None
           | Some [] \<Rightarrow> None
           | Some (g # _) \<Rightarrow> (case video g of None \<Rightarrow> None | Some v \<Rightarrow> uri_video v)))"

definition no_uri_error :: js_error where
  "no_uri_error = Error ''Video generation failed or no URI returned''"

definition veo_unavailable_error :: js_error where
  "veo_unavailable_error =
     Error ''Veo model not available with current API Key. This feature requires a specific paid tier or region.''"

text \<open>The body of the try block: submit, poll, extract.\<close>

definition veo_try :: "video_client \<Rightarrow> video_params \<Rightarrow> ((js_error + string) \<times> poller) option" where
  "veo_try client p =
     (case generateVideos client p of
        Inl error \<Rightarrow> Some (Inl error, \<lparr>slept = 0, fetches = 0\<rparr>)
      | Inr operation \<Rightarrow>
          (case poll (getVideosOperation client) operation \<lparr>slept = 0, fetches = 0\<rparr> of
             None \<Rightarrow> None
           | Some (Inl error, clock) \<Rightarrow> Some (Inl error, clock)
           | Some (Inr finished, clock) \<Rightarrow>
               (case first_video_uri finished of
                  None \<Rightarrow> Some (Inl no_uri_error, clock)
                | Some u \<Rightarrow>
                    if u = [] then Some (Inl no_uri_error, clock) else Some (Inr u, clock))))"

text \<open>The catch block rewrites a not-available error and rethrows every other one.\<close>

definition generateVeoVideo ::
  "video_client \<Rightarrow> string \<Rightarrow> string option \<Rightarrow> string option \<Rightarrow> aspect_ratio option
     \<Rightarrow> ((js_error + string) \<times> poller) option" where
  "generateVeoVideo client prompt inputImageBase64 inputImageMime ratio =
     (case veo_try client (veo_params prompt inputImageBase64 inputImageMime ratio) of
        None \<Rightarrow> None
      | Some (Inr u, clock) \<Rightarrow> Some (Inr u, clock)
      | Some (Inl error, clock) \<Rightarrow>
          if not_available error then Some (Inl veo_unavailable_error, clock)
          else Some (Inl error, clock))"

text \<open>
  What \<open>k\<close> rounds of fetching report, the first of them being fetch number \<open>n\<close>: the
  operation after \<open>k\<close> fetches, or the error of the first fetch that failed.
\<close>

primrec reported ::
  "(nat \<Rightarrow> operation \<Rightarrow> js_error + operation) \<Rightarrow> nat \<Rightarrow> operation \<Rightarrow> nat
     \<Rightarrow> js_error + operation" where
  "reported fetch n operation 0 = Inr operation"
| "reported fetch n operation (Suc k) =
     (case fetch n operation of
        Inl error \<Rightarrow> Inl error
      | Inr operation' \<Rightarrow> reported fetch (Suc n) operation' k)"

text \<open>A round is pending when the operation it reports is not done.\<close>

definition pending :: "js_error + operation \<Rightarrow> bool" where
  "pending status = (case status of Inl error \<Rightarrow> False | Inr operation \<Rightarrow> \<not> done_operation operation)"

text \<open>
  The loop exits at round \<open>k\<close> with a result: every earlier round was pending, and either
  round \<open>k\<close> reports a finished operation, or round \<open>k\<close> is still pending and the next fetch
  fails. Each round adds 5000 ms and one fetch.
\<close>

definition exit_at ::
  "(nat \<Rightarrow> operation \<Rightarrow> js_error + operation) \<Rightarrow> operation \<Rightarrow> poller \<Rightarrow> nat
     \<Rightarrow> (js_error + operation) \<times> poller \<Rightarrow> bool" where
  "exit_at fetch operation clock k result =
     ((\<forall>i<k. pending (reported fetch (fetches clock) operation i))
      \<and> (case result of
           (Inr final, clock') \<Rightarrow>
             reported fetch (fetches clock) operation k = Inr final \<and> done_operation final
             \<and> clock' = \<lparr>slept = slept clock + 5000 * k, fetches = fetches clock + k\<rparr>
         | (Inl error, clock') \<Rightarrow>
             pending (reported fetch (fetches clock) operation k)
             \<and> reported fetch (fetches clock) operation (Suc k) = Inl error
             \<and> clock' = \<lparr>slept = slept clock + 5000 * Suc k,
                          fetches = fetches clock + Suc k\<rparr>))"

section \<open>Reading a quiz item\<close>

text \<open>\<^verbatim>\<open>item[key]\<close> on a parsed value.\<close>

definition member :: "string \<Rightarrow> json \<Rightarrow> json option" where
  "member key item = (case item of JObject ms \<Rightarrow> map_of ms key | _ \<Rightarrow> None)"

text \<open>
  The property of a quiz item that the interface comment \<^verbatim>\<open>correctAnswer: number; // index (0-3)\<close>
  and the specification speak of: \<open>correctAnswer\<close> is a whole number that indexes an element
  of \<open>options\<close>.
\<close>

definition correctAnswer_in_range :: "json \<Rightarrow> bool" where
  "correctAnswer_in_range item =
     (case (member ''correctAnswer'' item, member ''options'' item) of
        (Some (JNumber i), Some (JArray options)) \<Rightarrow>
          (\<exists>n < length options. i = of_nat n)
      | _ \<Rightarrow> False)"

section \<open>Scripted remotes\<close>

text \<open>A remote that refuses the preview model with a 404 and serves every other model.\<close>

definition pro_missing :: remote where
  "pro_missing calls req =
     (if model req = ''gemini-3-pro-preview''
      then Inl (Error ''404 models/gemini-3-pro-preview is not found'')
      else Inr \<lparr>text_response = Some ''ok'', candidates = None\<rparr>)"

text \<open>A remote that is out of quota for every model.\<close>

definition out_of_quota :: remote where
  "out_of_quota calls req = Inl (Error ''429 quota exceeded'')"

text \<open>A remote on which no model is found.\<close>

definition nothing_found :: remote where
  "nothing_found calls req = Inl (Error ''model not found'')"

text \<open>A remote that answers every request with the same text.\<close>

definition replying :: "string \<Rightarrow> remote" where
  "replying t calls req = Inr \<lparr>text_response = Some t, candidates = None\<rparr>"

subsection \<open>Scripted video clients\<close>

definition pending_operation :: operation where
  "pending_operation = \<lparr>done_operation = False, response_operation = None\<rparr>"

definition finished_operation :: "string \<Rightarrow> operation" where
  "finished_operation u =
     \<lparr>done_operation = True,
      response_operation =
        Some \<lparr>generatedVideos = Some [\<lparr>video = Some \<lparr>uri_video = Some u\<rparr>\<rparr>]\<rparr>\<rparr>"

definition empty_operation :: operation where
  "empty_operation =
     \<lparr>done_operation = True, response_operation = Some \<lparr>generatedVideos = Some []\<rparr>\<rparr>"

text \<open>The job is accepted, and fetch number \<open>n - 1\<close> is the first to report the final state.\<close>

definition ready_after :: "nat \<Rightarrow> operation \<Rightarrow> video_client" where
  "ready_after n final =
     \<lparr>generateVideos = (\<lambda>p. Inr pending_operation),
      getVideosOperation = (\<lambda>i operation. if Suc i < n then Inr pending_operation else Inr final)\<rparr>"

text \<open>The job is accepted and never finishes.\<close>

definition never_ready :: video_client where
  "never_ready =
     \<lparr>generateVideos = (\<lambda>p. Inr pending_operation),
      getVideosOperation = (\<lambda>i operation. Inr pending_operation)\<rparr>"



chapter \<open>Properties\<close>

section \<open>Strings\<close>

lemma str_includes_sublist: "str_includes s needle \<longleftrightarrow> sublist needle s"
  by (induction s) (auto simp: sublist_Cons_right)

lemma str_includes_iff: "str_includes s needle \<longleftrightarrow> (\<exists>before after. s = before @ needle @ after)"
  by (simp add: str_includes_sublist sublist_def)

lemma split_first_None: "split_first needle s = None \<longleftrightarrow> \<not> sublist needle s"
  by (induction s) (auto simp: sublist_Cons_right)

lemma split_first_Some: "split_first needle s = Some (before, after) \<Longrightarrow> s = before @ needle @ after"
proof (induction s arbitrary: before)
  case Nil
  then show ?case by (simp split: if_splits)
next
  case (Cons c cs)
  show ?case
  proof (cases "prefix needle (c # cs)")
    case True
    with Cons.prems have "before = []" "after = drop (length needle) (c # cs)" by simp_all
    with True show ?thesis by (auto simp: prefix_def)
  next
    case False
    with Cons.prems obtain b where "split_first needle cs = Some (b, after)" "before = c # b"
      by auto
    with Cons.IH show ?thesis by simp
  qed
qed

lemma early_prefix:
  assumes "prefix needle (before @ needle @ after)" and "before \<noteq> []"
  shows "sublist needle (before @ butlast needle)"
proof (cases "needle = []")
  case True
  then show ?thesis by simp
next
  case False
  then have n: "needle = butlast needle @ [last needle]" by simp
  have len: "length needle \<le> length (before @ butlast needle)"
    using assms(2) by (cases before) simp_all
  have "before @ needle @ after = (before @ butlast needle) @ ([last needle] @ after)"
    using n by (metis append.assoc)
  with assms(1) have "prefix needle ((before @ butlast needle) @ ([last needle] @ after))" by simp
  with len have "prefix needle (before @ butlast needle)"
    by (metis prefix_length_prefix prefixI)
  then show ?thesis by (rule prefix_imp_sublist)
qed

lemma split_first_first:
  assumes "needle \<noteq> []" and "\<not> sublist needle (before @ butlast needle)"
  shows "split_first needle (before @ needle @ after) = Some (before, after)"
  using assms(2)
proof (induction before)
  case Nil
  then show ?case using assms(1) by (cases needle) simp_all
next
  case (Cons c b)
  from Cons.prems have "\<not> sublist needle (b @ butlast needle)"
    by (simp add: sublist_Cons_right)
  then have IH: "split_first needle (b @ needle @ after) = Some (b, after)" by (rule Cons.IH)
  have "\<not> prefix needle ((c # b) @ needle @ after)"
    using early_prefix [of needle "c # b" after] Cons.prems by blast
  then show ?case using IH by simp
qed

lemma match_here_Some:
  "match_here opener s = Some inner \<Longrightarrow> \<exists>after. s = opener @ inner @ ''```'' @ after"
  unfolding match_here_def
  by (auto split: if_splits simp: prefix_def dest!: split_first_Some)

lemma fence_match_sound:
  "fence_match opener s = Some inner \<Longrightarrow>
   \<exists>before after. s = before @ opener @ inner @ ''```'' @ after"
proof (induction s)
  case Nil
  then show ?case using match_here_Some [of opener "[]" inner] by auto
next
  case (Cons c cs)
  show ?case
  proof (cases "match_here opener (c # cs)")
    case None
    with Cons.prems have "fence_match opener cs = Some inner" by simp
    from Cons.IH [OF this] obtain before after where
      "cs = before @ opener @ inner @ ''```'' @ after" by blast
    then have "c # cs = (c # before) @ opener @ inner @ ''```'' @ after" by simp
    then show ?thesis by blast
  next
    case (Some found)
    with Cons.prems have "found = inner" by simp
    with Some match_here_Some [of opener "c # cs" inner] obtain after where
      "c # cs = [] @ opener @ inner @ ''```'' @ after" by auto
    then show ?thesis by blast
  qed
qed

lemma fence_match_None_suffix:
  "fence_match opener (before @ s) = None \<Longrightarrow> match_here opener s = None"
proof (induction before)
  case Nil
  then show ?case by (cases s) (auto split: option.splits)
next
  case (Cons c b)
  then show ?case by (auto split: option.splits)
qed

lemma fence_match_complete:
  "fence_match opener (before @ opener @ inner @ ''```'' @ after) \<noteq> None"
proof
  assume "fence_match opener (before @ opener @ inner @ ''```'' @ after) = None"
  then have "match_here opener (opener @ inner @ ''```'' @ after) = None"
    by (rule fence_match_None_suffix)
  moreover have "sublist ''```'' (inner @ ''```'' @ after)"
    unfolding sublist_def by blast
  ultimately show False
    by (simp add: match_here_def split_first_None)
qed

lemma fence_match_None_iff:
  "fence_match opener s = None \<longleftrightarrow>
   \<not> (\<exists>before inner after. s = before @ opener @ inner @ ''```'' @ after)"
proof
  assume "fence_match opener s = None"
  then show "\<not> (\<exists>before inner after. s = before @ opener @ inner @ ''```'' @ after)"
    by (metis fence_match_complete)
next
  assume no: "\<not> (\<exists>before inner after. s = before @ opener @ inner @ ''```'' @ after)"
  show "fence_match opener s = None"
  proof (cases "fence_match opener s")
    case None
    then show ?thesis .
  next
    case (Some inner)
    from fence_match_sound [OF this] no show ?thesis by blast
  qed
qed

lemma fence_match_first:
  assumes "opener \<noteq> []"
    and "\<not> sublist opener (before @ butlast opener)"
    and "\<not> sublist ''```'' (inner @ ''``'')"
  shows "fence_match opener (before @ opener @ inner @ ''```'' @ after) = Some inner"
  using assms(2)
proof (induction before)
  case Nil
  have "split_first ''```'' (inner @ ''```'' @ after) = Some (inner, after)"
    using assms(3) by (intro split_first_first) simp_all
  then have "match_here opener (opener @ inner @ ''```'' @ after) = Some inner"
    by (simp add: match_here_def)
  then show ?case using assms(1) by (cases opener) simp_all
next
  case (Cons c b)
  from Cons.prems have "\<not> sublist opener (b @ butlast opener)"
    by (simp add: sublist_Cons_right)
  then have IH: "fence_match opener (b @ opener @ inner @ ''```'' @ after) = Some inner"
    by (rule Cons.IH)
  have "\<not> prefix opener ((c # b) @ opener @ inner @ ''```'' @ after)"
    using early_prefix [of opener "c # b" "inner @ ''```'' @ after"] Cons.prems by blast
  then have "match_here opener (c # b @ opener @ inner @ ''```'' @ after) = None"
    by (simp add: match_here_def)
  then show ?case using IH by simp
qed

section \<open>The fallback invoker\<close>

lemma with_model_payload:
  "contents (with_model p m) = contents p" "config (with_model p m) = config p"
  "model (with_model p m) = m"
  by (simp_all add: with_model_def)

text \<open>
  Claim C1. The primary call carries the caller's contents and configuration and the
  caller's model. When it fails with an error whose message contains "404" or "not found",
  exactly one further call is issued, to gemini-2.5-flash with the same contents and
  configuration, and its outcome (a response or an error) is the outcome of the invoker,
  with no third call. When the primary call fails with any other error, no second call is
  issued and that error is the outcome.
\<close>

theorem generateContentWithFallback_one_hop:
  fixes ai :: remote and p :: params and m :: string
  defines "primary \<equiv> with_model p m"
      and "secondary \<equiv> with_model p ''gemini-2.5-flash''"
  shows "(\<forall>e. ai calls primary = Inl e \<and> not_available e \<longrightarrow>
            generateContentWithFallback ai m p calls
              = (ai (calls @ [primary]) secondary, calls @ [primary, secondary]))
       \<and> (\<forall>e. ai calls primary = Inl e \<and> \<not> not_available e \<longrightarrow>
            generateContentWithFallback ai m p calls = (Inl e, calls @ [primary]))
       \<and> (\<forall>e e'. ai calls primary = Inl e \<and> not_available e
              \<and> ai (calls @ [primary]) secondary = Inl e' \<longrightarrow>
            generateContentWithFallback ai m p calls = (Inl e', calls @ [primary, secondary]))
       \<and> primary = \<lparr>contents = contents p, config = config p, model = m\<rparr>
       \<and> secondary = \<lparr>contents = contents p, config = config p, model = ''gemini-2.5-flash''\<rparr>
       \<and> contents primary = contents p \<and> config primary = config p \<and> model primary = m
       \<and> contents secondary = contents p \<and> config secondary = config p
       \<and> contents secondary = contents primary \<and> config secondary = config primary
       \<and> model secondary = ''gemini-2.5-flash''"
  by (simp add: generateContentWithFallback_def generateContent_def primary_def secondary_def
      with_model_def)

theorem generateContentWithFallback_one_hop_witness:
  "not_available (Error ''404 models/gemini-3-pro-preview is not found'')
   \<and> generateContentWithFallback pro_missing ''gemini-3-pro-preview''
         \<lparr>contents = [Text ''hello''], config = no_config\<rparr> []
       = (Inr \<lparr>text_response = Some ''ok'', candidates = None\<rparr>,
          [\<lparr>contents = [Text ''hello''], config = no_config, model = ''gemini-3-pro-preview''\<rparr>,
           \<lparr>contents = [Text ''hello''], config = no_config, model = ''gemini-2.5-flash''\<rparr>])
   \<and> \<not> not_available (Error ''429 quota exceeded'')
   \<and> generateContentWithFallback out_of_quota ''gemini-3-pro-preview''
         \<lparr>contents = [Text ''hello''], config = no_config\<rparr> []
       = (Inl (Error ''429 quota exceeded''),
          [\<lparr>contents = [Text ''hello''], config = no_config, model = ''gemini-3-pro-preview''\<rparr>])
   \<and> not_available (Error ''model not found'')
   \<and> generateContentWithFallback nothing_found ''gemini-3-pro-preview''
         \<lparr>contents = [Text ''hello''], config = no_config\<rparr> []
       = (Inl (Error ''model not found''),
          [\<lparr>contents = [Text ''hello''], config = no_config, model = ''gemini-3-pro-preview''\<rparr>,
           \<lparr>contents = [Text ''hello''], config = no_config, model = ''gemini-2.5-flash''\<rparr>])"
proof -
  let ?p = "\<lparr>contents = [Text ''hello''], config = no_config\<rparr>"
  let ?primary = "\<lparr>contents = [Text ''hello''], config = no_config,
                   model = ''gemini-3-pro-preview''\<rparr>"
  let ?secondary = "\<lparr>contents = [Text ''hello''], config = no_config,
                     model = ''gemini-2.5-flash''\<rparr>"
  have a: "not_available (Error ''404 models/gemini-3-pro-preview is not found'')"
    by (simp add: not_available_def Error_def)
  have b: "\<not> not_available (Error ''429 quota exceeded'')"
    by (simp add: not_available_def Error_def)
  have c: "not_available (Error ''model not found'')"
    by (simp add: not_available_def Error_def)
  note hop = generateContentWithFallback_one_hop
    [where p = ?p and m = "''gemini-3-pro-preview''" and calls = "[]"]
  have requests: "with_model ?p ''gemini-3-pro-preview'' = ?primary"
    "with_model ?p ''gemini-2.5-flash'' = ?secondary"
    using hop [where ai = pro_missing] by simp_all
  have "generateContentWithFallback pro_missing ''gemini-3-pro-preview'' ?p []
       = (Inr \<lparr>text_response = Some ''ok'', candidates = None\<rparr>, [?primary, ?secondary])"
    using hop [where ai = pro_missing] a by (simp add: pro_missing_def requests)
  moreover have "generateContentWithFallback out_of_quota ''gemini-3-pro-preview'' ?p []
       = (Inl (Error ''429 quota exceeded''), [?primary])"
    using hop [where ai = out_of_quota] b by (simp add: out_of_quota_def requests)
  moreover have "generateContentWithFallback nothing_found ''gemini-3-pro-preview'' ?p []
       = (Inl (Error ''model not found''), [?primary, ?secondary])"
    using hop [where ai = nothing_found] c by (simp add: nothing_found_def requests)
  ultimately show ?thesis using a b c by simp
qed

section \<open>The polling loop\<close>

lemma poll_rounds:
  "(\<forall>i<k. pending (reported fetch (fetches clock) operation i)) \<Longrightarrow>
   reported fetch (fetches clock) operation k = Inr later \<Longrightarrow>
   poll fetch operation clock
     = poll fetch later \<lparr>slept = slept clock + 5000 * k, fetches = fetches clock + k\<rparr>"
proof (induction k arbitrary: operation clock)
  case 0
  then show ?case by (cases clock) simp
next
  case (Suc k)
  from Suc.prems(1) have "pending (reported fetch (fetches clock) operation 0)" by blast
  then have nd: "\<not> done_operation operation" by (simp add: pending_def)
  from Suc.prems(2) obtain next_op where
    f: "fetch (fetches clock) operation = Inr next_op" and
    r: "reported fetch (Suc (fetches clock)) next_op k = Inr later"
    by (auto split: sum.splits)
  let ?c = "\<lparr>slept = slept clock + 5000, fetches = Suc (fetches clock)\<rparr>"
  have p: "\<forall>i<k. pending (reported fetch (fetches ?c) next_op i)"
  proof (intro allI impI)
    fix i assume "i < k"
    then have "Suc i < Suc k" by simp
    with Suc.prems(1) have "pending (reported fetch (fetches clock) operation (Suc i))"
      by blast
    then show "pending (reported fetch (fetches ?c) next_op i)" using f by simp
  qed
  have "poll fetch operation clock = poll fetch next_op ?c"
    using nd f by (subst poll.simps) simp
  also have "\<dots> = poll fetch later \<lparr>slept = slept ?c + 5000 * k, fetches = fetches ?c + k\<rparr>"
    using r by (intro Suc.IH [OF p]) simp
  finally show ?case by (simp add: add.assoc)
qed

lemma exit_at_step:
  assumes "\<not> done_operation operation"
    and "fetch (fetches clock) operation = Inr next_op"
    and "exit_at fetch next_op \<lparr>slept = slept clock + 5000, fetches = Suc (fetches clock)\<rparr> k result"
  shows "exit_at fetch operation clock (Suc k) result"
proof -
  obtain outcome clock' where result: "result = (outcome, clock')" by (cases result)
  have "pending (reported fetch (fetches clock) operation i)" if "i < Suc k" for i
    using that assms by (cases i) (simp_all add: pending_def exit_at_def)
  then show ?thesis
    using assms unfolding exit_at_def result by (cases outcome) simp_all
qed

lemma poll_exit:
  "poll fetch operation clock = Some result \<Longrightarrow> \<exists>k. exit_at fetch operation clock k result"
proof (induction rule: poll.raw_induct [rotated 1, consumes 1, case_names step])
  case 1: (step poll' fetch operation clock result)
  show ?case
  proof (cases "done_operation operation")
    case True
    with 1(2) have "result = (Inr operation, clock)" by simp
    with True have "exit_at fetch operation clock 0 result"
      by (cases clock) (simp add: exit_at_def)
    then show ?thesis ..
  next
    case nd: False
    show ?thesis
    proof (cases "fetch (fetches clock) operation")
      case (Inl error)
      with nd 1(2) have
        "result = (Inl error, \<lparr>slept = slept clock + 5000, fetches = Suc (fetches clock)\<rparr>)"
        by simp
      with nd Inl have "exit_at fetch operation clock 0 result"
        by (simp add: exit_at_def pending_def)
      then show ?thesis ..
    next
      case (Inr next_op)
      let ?c = "\<lparr>slept = slept clock + 5000, fetches = Suc (fetches clock)\<rparr>"
      from nd Inr 1(2) have "poll' fetch next_op ?c = Some result" by simp
      from 1(1) [OF this] obtain k where "exit_at fetch next_op ?c k result" by blast
      from exit_at_step [OF nd Inr this] show ?thesis ..
    qed
  qed
qed

lemma poll_never:
  assumes "\<forall>k. pending (reported fetch (fetches clock) operation k)"
  shows "poll fetch operation clock = None"
proof (cases "poll fetch operation clock")
  case None
  then show ?thesis .
next
  case (Some result)
  then obtain k where k: "exit_at fetch operation clock k result" using poll_exit by blast
  obtain outcome clock' where "result = (outcome, clock')" by (cases result)
  with k assms have False
    by (cases outcome) (auto simp: exit_at_def pending_def dest: spec [of _ k] spec [of _ "Suc k"])
  then show ?thesis ..
qed

section \<open>Parsed examples\<close>

lemma parse_item_index_7:
  \<open>JSON_parse ''[{"id":1,"question":"2+2?","options":["3","4","5","6"],"correctAnswer":7,"explanation":"sum"}]''
   = Inr (JArray [JObject [(''id'', JNumber 1), (''question'', JString ''2+2?''),
        (''options'', JArray [JString ''3'', JString ''4'', JString ''5'', JString ''6'']),
        (''correctAnswer'', JNumber 7), (''explanation'', JString ''sum'')]])\<close>
  by code_simp

lemma parse_one_item_two_options:
  \<open>JSON_parse ''[{"id":1,"question":"Sky?","options":["blue","red"],"correctAnswer":0,"explanation":"air"}]''
   = Inr (JArray [JObject [(''id'', JNumber 1), (''question'', JString ''Sky?''),
        (''options'', JArray [JString ''blue'', JString ''red'']),
        (''correctAnswer'', JNumber 0), (''explanation'', JString ''air'')]])\<close>
  by code_simp

lemma parse_empty_object: \<open>JSON_parse ''{}'' = Inr (JObject [])\<close>
  by code_simp

lemma parse_prose:
  \<open>JSON_parse ''Sorry, no facts.''
   = Inl \<lparr>name = ''SyntaxError'', message = Some ''Unexpected token in JSON''\<rparr>\<close>
  by code_simp

section \<open>The quiz generator\<close>

lemma generateQuiz_cases:
  "generateQuiz parse ai studyNotes calls =
     (case ai calls (quiz_request studyNotes) of
        Inl e \<Rightarrow> (Inr (JArray []), calls @ [quiz_request studyNotes])
      | Inr response \<Rightarrow>
          (case parse (or_else (text_response response) ''[]'') of
             Inl e \<Rightarrow> (Inr (JArray []), calls @ [quiz_request studyNotes])
           | Inr v \<Rightarrow> (Inr v, calls @ [quiz_request studyNotes])))"
  by (simp add: generateQuiz_def quiz_try_def generateContent_def split: sum.splits)

lemma quiz_reply:
  "generateQuiz JSON_parse (replying t) studyNotes [] =
     (case JSON_parse (or_else (Some t) ''[]'') of
        Inl e \<Rightarrow> (Inr (JArray []), [quiz_request studyNotes])
      | Inr v \<Rightarrow> (Inr v, [quiz_request studyNotes]))"
  by (simp add: generateQuiz_cases replying_def split: sum.splits)

text \<open>
  Claim C2, as stated, fails: an item whose \<open>correctAnswer\<close> is 7 while it has four options
  is returned.
\<close>

theorem generateQuiz_index_counterexample:
  \<open>fst (generateQuiz JSON_parse
      (replying ''[{"id":1,"question":"2+2?","options":["3","4","5","6"],"correctAnswer":7,"explanation":"sum"}]'')
      ''Addition of small numbers.'' [])
   = Inr (JArray [JObject [(''id'', JNumber 1), (''question'', JString ''2+2?''),
        (''options'', JArray [JString ''3'', JString ''4'', JString ''5'', JString ''6'']),
        (''correctAnswer'', JNumber 7), (''explanation'', JString ''sum'')]])
   \<and> \<not> correctAnswer_in_range
        (JObject [(''id'', JNumber 1), (''question'', JString ''2+2?''),
           (''options'', JArray [JString ''3'', JString ''4'', JString ''5'', JString ''6'']),
           (''correctAnswer'', JNumber 7), (''explanation'', JString ''sum'')])\<close>
proof -
  have "\<not> (\<exists>n<4. (7::rat) = of_nat n)"
  proof
    assume "\<exists>n<4. (7::rat) = of_nat n"
    then obtain n :: nat where "n < 4" "(7::rat) = of_nat n" by blast
    then have "(of_nat 7 :: rat) = of_nat n" by simp
    then have "n = 7" by (simp only: of_nat_eq_iff)
    with \<open>n < 4\<close> show False by simp
  qed
  then show ?thesis
    by (simp add: quiz_reply or_else_def parse_item_index_7 correctAnswer_in_range_def member_def)
qed

text \<open>
  Claim C2, amended. The generator performs no check on \<open>correctAnswer\<close>: when the call
  succeeds and the response text parses to an array, the returned list has the length of
  that array, and every item of it is returned at its position with its \<open>correctAnswer\<close>
  and \<open>options\<close> as parsed, in range or not; no item is excluded.
\<close>

theorem generateQuiz_items_pass_through:
  assumes "ai calls (quiz_request studyNotes) = Inr response"
    and "parse (or_else (text_response response) ''[]'') = Inr (JArray items)"
  shows "\<exists>returned. fst (generateQuiz parse ai studyNotes calls) = Inr (JArray returned)
           \<and> length returned = length items
           \<and> (\<forall>i < length items.
                 returned ! i = items ! i
                 \<and> member ''correctAnswer'' (returned ! i) = member ''correctAnswer'' (items ! i)
                 \<and> member ''options'' (returned ! i) = member ''options'' (items ! i))"
  using assms by (simp add: generateQuiz_cases)

theorem generateQuiz_items_pass_through_witness:
  \<open>\<exists>returned. fst (generateQuiz JSON_parse
      (replying ''[{"id":1,"question":"2+2?","options":["3","4","5","6"],"correctAnswer":7,"explanation":"sum"}]'')
      ''Addition of small numbers.'' []) = Inr (JArray returned)
    \<and> length returned = 1
    \<and> member ''correctAnswer'' (returned ! 0) = Some (JNumber 7)
    \<and> member ''options'' (returned ! 0)
        = Some (JArray [JString ''3'', JString ''4'', JString ''5'', JString ''6''])\<close>
proof -
  let ?t = \<open>''[{"id":1,"question":"2+2?","options":["3","4","5","6"],"correctAnswer":7,"explanation":"sum"}]''\<close>
  let ?items = "[JObject [(''id'', JNumber 1), (''question'', JString ''2+2?''),
        (''options'', JArray [JString ''3'', JString ''4'', JString ''5'', JString ''6'']),
        (''correctAnswer'', JNumber 7), (''explanation'', JString ''sum'')]]"
  have call: "replying ?t [] (quiz_request ''Addition of small numbers.'')
      = Inr \<lparr>text_response = Some ?t, candidates = None\<rparr>"
    by (simp add: replying_def)
  have parsed: "JSON_parse (or_else (text_response \<lparr>text_response = Some ?t, candidates = None\<rparr>) ''[]'')
      = Inr (JArray ?items)"
    by (simp add: or_else_def parse_item_index_7)
  from generateQuiz_items_pass_through
    [where ai = "replying ?t" and parse = JSON_parse and calls = "[]"
       and studyNotes = "''Addition of small numbers.''", OF call parsed]
  show ?thesis by (auto simp: member_def)
qed

text \<open>
  Claim C3, as stated, fails: a response holding one item with two options is returned as
  it is, a list of one item.
\<close>

theorem generateQuiz_count_counterexample:
  \<open>fst (generateQuiz JSON_parse
      (replying ''[{"id":1,"question":"Sky?","options":["blue","red"],"correctAnswer":0,"explanation":"air"}]'')
      ''The sky looks blue because air scatters the light.'' [])
   = Inr (JArray [JObject [(''id'', JNumber 1), (''question'', JString ''Sky?''),
        (''options'', JArray [JString ''blue'', JString ''red'']),
        (''correctAnswer'', JNumber 0), (''explanation'', JString ''air'')]])
   \<and> length ''The sky looks blue because air scatters the light.'' = 50\<close>
  by (simp add: quiz_reply or_else_def parse_one_item_two_options)

text \<open>
  Claim C3, amended. The generator returns the empty list when the call or the parse
  throws, and otherwise the parsed value of the response text as it is (an absent or empty
  text read as \<open>[]\<close>), whatever the number of its items and of their options; it issues
  one request and never raises.
\<close>

theorem generateQuiz_returns_parsed:
  "(\<forall>e. ai calls (quiz_request studyNotes) = Inl e \<longrightarrow>
      generateQuiz parse ai studyNotes calls = (Inr (JArray []), calls @ [quiz_request studyNotes]))
   \<and> (\<forall>response e. ai calls (quiz_request studyNotes) = Inr response
        \<and> parse (or_else (text_response response) ''[]'') = Inl e \<longrightarrow>
      generateQuiz parse ai studyNotes calls = (Inr (JArray []), calls @ [quiz_request studyNotes]))
   \<and> (\<forall>response v. ai calls (quiz_request studyNotes) = Inr response
        \<and> parse (or_else (text_response response) ''[]'') = Inr v \<longrightarrow>
      generateQuiz parse ai studyNotes calls = (Inr v, calls @ [quiz_request studyNotes]))"
  by (simp add: generateQuiz_cases)

theorem generateQuiz_returns_parsed_witness:
  \<open>generateQuiz JSON_parse out_of_quota ''notes'' [] = (Inr (JArray []), [quiz_request ''notes''])
   \<and> generateQuiz JSON_parse (replying ''Sorry, no facts.'') ''notes'' []
       = (Inr (JArray []), [quiz_request ''notes''])
   \<and> generateQuiz JSON_parse (replying ''{}'') ''notes'' []
       = (Inr (JObject []), [quiz_request ''notes''])\<close>
proof -
  note r = generateQuiz_returns_parsed
    [where parse = JSON_parse and studyNotes = "''notes''" and calls = "[]"]
  have "generateQuiz JSON_parse out_of_quota ''notes'' []
      = (Inr (JArray []), [quiz_request ''notes''])"
    using r [where ai = out_of_quota] by (simp add: out_of_quota_def)
  moreover have "generateQuiz JSON_parse (replying ''Sorry, no facts.'') ''notes'' []
      = (Inr (JArray []), [quiz_request ''notes''])"
    using r [where ai = "replying ''Sorry, no facts.''"]
    by (simp add: replying_def or_else_def parse_prose)
  moreover have "generateQuiz JSON_parse (replying ''{}'') ''notes'' []
      = (Inr (JObject []), [quiz_request ''notes''])"
    using r [where ai = "replying ''{}''"]
    by (simp add: replying_def or_else_def parse_empty_object)
  ultimately show ?thesis by simp
qed

section \<open>Fact retrieval\<close>

lemma getInterestingFacts_cases:
  "getInterestingFacts parse ai topic calls =
     (case ai calls (facts_request topic) of
        Inl e \<Rightarrow> (Inr default_facts, calls @ [facts_request topic])
      | Inr response \<Rightarrow>
          (case parse (unwrap_json (or_else (text_response response) ''{}'')) of
             Inl e \<Rightarrow> (Inr default_facts, calls @ [facts_request topic])
           | Inr v \<Rightarrow> (Inr v, calls @ [facts_request topic])))"
  by (simp add: getInterestingFacts_def facts_try_def generateContent_def split: sum.splits)

lemma unwrap_json_cases:
  "unwrap_json raw =
     (case fence_match ''```json'' raw of
        Some inner \<Rightarrow> inner
      | None \<Rightarrow> (case fence_match ''```'' raw of Some inner \<Rightarrow> inner | None \<Rightarrow> raw))"
  by (simp add: unwrap_json_def split: option.splits)

text \<open>
  Claim C4, as stated, fails: a fence labelled \<open>python\<close> is stripped by the second pattern
  as if it were unlabelled, and the label stays at the head of the payload.
\<close>

theorem unwrap_json_other_label_counterexample:
  \<open>fence_match ''```json'' ''```python{"facts":[]}```'' = None
   \<and> unwrap_json ''```python{"facts":[]}```'' = ''python{"facts":[]}''
   \<and> unwrap_json ''```python{"facts":[]}```'' \<noteq> ''```python{"facts":[]}```''\<close>
  by (simp add: unwrap_json_cases match_here_def)

text \<open>
  Claim C4, amended. The cleaning step proceeds in this order: (a) when the text holds
  \<^verbatim>\<open>```json\<close> followed later by \<^verbatim>\<open>```\<close>, the text between the first \<^verbatim>\<open>```json\<close> and the
  next \<^verbatim>\<open>```\<close> is taken; (b) otherwise, when the text holds \<^verbatim>\<open>```\<close> followed later by
  another \<^verbatim>\<open>```\<close>, the text between the first and the next is taken, whatever follows the
  opening backticks, so that a label other than \<open>json\<close> stays at the head of what is taken;
  (c) otherwise the whole text is the payload.
\<close>

theorem unwrap_json_order:
  "(raw = before @ ''```json'' @ inner @ ''```'' @ after
      \<and> \<not> str_includes (before @ ''```jso'') ''```json''
      \<and> \<not> str_includes (inner @ ''``'') ''```''
    \<longrightarrow> unwrap_json raw = inner)
   \<and> (\<not> (\<exists>b i a. raw = b @ ''```json'' @ i @ ''```'' @ a)
      \<and> raw = before @ ''```'' @ inner @ ''```'' @ after
      \<and> \<not> str_includes (before @ ''``'') ''```''
      \<and> \<not> str_includes (inner @ ''``'') ''```''
    \<longrightarrow> unwrap_json raw = inner)
   \<and> (\<not> (\<exists>b i a. raw = b @ ''```'' @ i @ ''```'' @ a) \<longrightarrow> unwrap_json raw = raw)"
proof (intro conjI impI)
  assume "raw = before @ ''```json'' @ inner @ ''```'' @ after
      \<and> \<not> str_includes (before @ ''```jso'') ''```json''
      \<and> \<not> str_includes (inner @ ''``'') ''```''"
  then have "fence_match ''```json'' raw = Some inner"
    using fence_match_first [of "''```json''" before inner after]
    by (simp add: str_includes_sublist)
  then show "unwrap_json raw = inner" by (simp add: unwrap_json_cases)
next
  assume a: "\<not> (\<exists>b i a. raw = b @ ''```json'' @ i @ ''```'' @ a)
      \<and> raw = before @ ''```'' @ inner @ ''```'' @ after
      \<and> \<not> str_includes (before @ ''``'') ''```''
      \<and> \<not> str_includes (inner @ ''``'') ''```''"
  then have "\<not> (\<exists>b i a. raw = b @ ''```json'' @ i @ ''```'' @ a)" by (rule conjunct1)
  then have "fence_match ''```json'' raw = None"
    using fence_match_None_iff [of "''```json''" raw] by blast
  moreover have "fence_match ''```'' raw = Some inner"
    using a fence_match_first [of "''```''" before inner after]
    by (simp add: str_includes_sublist)
  ultimately show "unwrap_json raw = inner" by (simp add: unwrap_json_cases)
next
  assume a: "\<not> (\<exists>b i a. raw = b @ ''```'' @ i @ ''```'' @ a)"
  then have plain: "fence_match ''```'' raw = None"
    using fence_match_None_iff [of "''```''" raw] by blast
  have "\<not> (\<exists>b i a. raw = b @ ''```json'' @ i @ ''```'' @ a)"
  proof
    assume "\<exists>b i a. raw = b @ ''```json'' @ i @ ''```'' @ a"
    then obtain b i a where "raw = b @ ''```json'' @ i @ ''```'' @ a" by blast
    then have "raw = b @ ''```'' @ (''json'' @ i) @ ''```'' @ a" by simp
    with a show False by blast
  qed
  then have "fence_match ''```json'' raw = None"
    using fence_match_None_iff [of "''```json''" raw] by blast
  with plain show "unwrap_json raw = raw" by (simp add: unwrap_json_cases)
qed

theorem unwrap_json_order_witness:
  \<open>unwrap_json ''Sure: ```json{"facts":[]}``` Bye.'' = ''{"facts":[]}''
   \<and> unwrap_json ''```[1]``` and ```json[2]```'' = ''[2]''
   \<and> unwrap_json ''Here: ```python{}``` Bye.'' = ''python{}''
   \<and> unwrap_json ''{"facts":[]}'' = ''{"facts":[]}''\<close>
proof -
  have "unwrap_json ''Sure: ```json{\"facts\":[]}``` Bye.'' = ''{\"facts\":[]}''"
    using unwrap_json_order [where raw = "''Sure: ```json{\"facts\":[]}``` Bye.''"
        and before = "''Sure: ''" and inner = "''{\"facts\":[]}''" and after = "'' Bye.''"]
    by simp
  moreover have "unwrap_json ''```[1]``` and ```json[2]```'' = ''[2]''"
    using unwrap_json_order [where raw = "''```[1]``` and ```json[2]```''"
        and before = "''```[1]``` and ''" and inner = "''[2]''" and after = "[]"]
    by simp
  moreover have "unwrap_json ''Here: ```python{}``` Bye.'' = ''python{}''"
  proof -
    have "fence_match ''```json'' ''Here: ```python{}``` Bye.'' = None"
      by (simp add: match_here_def)
    then have "\<not> (\<exists>b i a. ''Here: ```python{}``` Bye.'' = b @ ''```json'' @ i @ ''```'' @ a)"
      using fence_match_None_iff [of "''```json''" "''Here: ```python{}``` Bye.''"] by blast
    then show ?thesis
      using unwrap_json_order [where raw = "''Here: ```python{}``` Bye.''"
          and before = "''Here: ''" and inner = "''python{}''" and after = "'' Bye.''"]
      by simp
  qed
  moreover have "unwrap_json ''{\"facts\":[]}'' = ''{\"facts\":[]}''"
  proof -
    have "fence_match ''```'' ''{\"facts\":[]}'' = None"
      by (simp add: match_here_def)
    then have "\<not> (\<exists>b i a. ''{\"facts\":[]}'' = b @ ''```'' @ i @ ''```'' @ a)"
      using fence_match_None_iff [of "''```''" "''{\"facts\":[]}''"] by blast
    then show ?thesis
      using unwrap_json_order [where raw = "''{\"facts\":[]}''"] by blast
  qed
  ultimately show ?thesis by simp
qed

text \<open>
  Claim C5. When the remote call throws, or the cleaned text does not parse, the result is
  the fixed set of three facts with an empty \<open>searchContext\<close>; and whatever the remote and
  the parser do, \<open>getInterestingFacts\<close> resolves to a value and never throws.
\<close>

theorem getInterestingFacts_default_on_failure:
  "(\<forall>e. ai calls (facts_request topic) = Inl e \<longrightarrow>
      getInterestingFacts parse ai topic calls
        = (Inr default_facts, calls @ [facts_request topic]))
   \<and> (\<forall>response e. ai calls (facts_request topic) = Inr response
        \<and> parse (unwrap_json (or_else (text_response response) ''{}'')) = Inl e \<longrightarrow>
      getInterestingFacts parse ai topic calls
        = (Inr default_facts, calls @ [facts_request topic]))
   \<and> (\<exists>facts. fst (getInterestingFacts parse ai topic calls) = Inr facts)
   \<and> member ''facts'' default_facts
       = Some (JArray [JString ''Learning is a journey.'', JString ''Stay curious.'',
                       JString ''Knowledge is power.''])
   \<and> member ''searchContext'' default_facts = Some (JString [])"
  by (auto simp: getInterestingFacts_cases default_facts_def member_def split: sum.splits)

theorem getInterestingFacts_default_on_failure_witness:
  "getInterestingFacts JSON_parse out_of_quota ''Photosynthesis'' []
     = (Inr default_facts, [facts_request ''Photosynthesis''])
   \<and> getInterestingFacts JSON_parse (replying ''Sorry, no facts.'') ''Photosynthesis'' []
     = (Inr default_facts, [facts_request ''Photosynthesis''])
   \<and> getInterestingFacts JSON_parse (replying ''```python{}```'') ''Photosynthesis'' []
     = (Inr default_facts, [facts_request ''Photosynthesis''])"
proof -
  note d = getInterestingFacts_default_on_failure
    [where parse = JSON_parse and topic = "''Photosynthesis''" and calls = "[]"]
  have u1: "unwrap_json ''Sorry, no facts.'' = ''Sorry, no facts.''"
    by (simp add: unwrap_json_cases match_here_def)
  have u2: "unwrap_json ''```python{}```'' = ''python{}''"
    by (simp add: unwrap_json_cases match_here_def)
  have p2: "JSON_parse ''python{}''
      = Inl \<lparr>name = ''SyntaxError'', message = Some ''Unexpected token in JSON''\<rparr>"
    by code_simp
  have "getInterestingFacts JSON_parse out_of_quota ''Photosynthesis'' []
      = (Inr default_facts, [facts_request ''Photosynthesis''])"
    using d [where ai = out_of_quota] by (simp add: out_of_quota_def)
  moreover have "getInterestingFacts JSON_parse (replying ''Sorry, no facts.'') ''Photosynthesis'' []
      = (Inr default_facts, [facts_request ''Photosynthesis''])"
    using d [where ai = "replying ''Sorry, no facts.''"]
    by (simp add: replying_def or_else_def u1 parse_prose)
  moreover have "getInterestingFacts JSON_parse (replying ''```python{}```'') ''Photosynthesis'' []
      = (Inr default_facts, [facts_request ''Photosynthesis''])"
    using d [where ai = "replying ''```python{}```''"]
    by (simp add: replying_def or_else_def u2 p2)
  ultimately show ?thesis by simp
qed

text \<open>
  Claim C9. When the call succeeds and the cleaned text parses, the parsed value is
  returned as it is, whatever its shape; the default set is returned only when the call or
  the parse throws, or when it is itself the parsed value.
\<close>

theorem getInterestingFacts_unvalidated:
  "(\<forall>response v. ai calls (facts_request topic) = Inr response
        \<and> parse (unwrap_json (or_else (text_response response) ''{}'')) = Inr v \<longrightarrow>
      getInterestingFacts parse ai topic calls = (Inr v, calls @ [facts_request topic]))
   \<and> (fst (getInterestingFacts parse ai topic calls) = Inr default_facts \<longrightarrow>
        (\<exists>e. ai calls (facts_request topic) = Inl e)
      \<or> (\<exists>response e. ai calls (facts_request topic) = Inr response
            \<and> parse (unwrap_json (or_else (text_response response) ''{}'')) = Inl e)
      \<or> (\<exists>response. ai calls (facts_request topic) = Inr response
            \<and> parse (unwrap_json (or_else (text_response response) ''{}'')) = Inr default_facts))"
  by (auto simp: getInterestingFacts_cases split: sum.splits)

theorem getInterestingFacts_unvalidated_witness:
  \<open>getInterestingFacts JSON_parse (replying ''{}'') ''Photosynthesis'' []
     = (Inr (JObject []), [facts_request ''Photosynthesis''])
   \<and> JObject [] \<noteq> default_facts
   \<and> member ''facts'' (JObject []) = None
   \<and> getInterestingFacts JSON_parse (replying ''```json{"facts":7}```'') ''Photosynthesis'' []
     = (Inr (JObject [(''facts'', JNumber 7)]), [facts_request ''Photosynthesis''])
   \<and> fst (getInterestingFacts JSON_parse out_of_quota ''Photosynthesis'' []) = Inr default_facts
   \<and> (\<exists>e. out_of_quota [] (facts_request ''Photosynthesis'') = Inl e)\<close>
proof -
  note u = getInterestingFacts_unvalidated
    [where parse = JSON_parse and topic = "''Photosynthesis''" and calls = "[]"]
  have u1: "unwrap_json ''{}'' = ''{}''"
    by (simp add: unwrap_json_cases match_here_def)
  have u2: "unwrap_json ''```json{\"facts\":7}```'' = ''{\"facts\":7}''"
    by (simp add: unwrap_json_cases match_here_def)
  have p2: "JSON_parse ''{\"facts\":7}'' = Inr (JObject [(''facts'', JNumber 7)])"
    by code_simp
  have "getInterestingFacts JSON_parse (replying ''{}'') ''Photosynthesis'' []
      = (Inr (JObject []), [facts_request ''Photosynthesis''])"
    using u [where ai = "replying ''{}''"]
    by (simp add: replying_def or_else_def u1 parse_empty_object)
  moreover have
    "getInterestingFacts JSON_parse (replying ''```json{\"facts\":7}```'') ''Photosynthesis'' []
      = (Inr (JObject [(''facts'', JNumber 7)]), [facts_request ''Photosynthesis''])"
    using u [where ai = "replying ''```json{\"facts\":7}```''"]
    by (simp add: replying_def or_else_def u2 p2)
  moreover have d: "fst (getInterestingFacts JSON_parse out_of_quota ''Photosynthesis'' [])
      = Inr default_facts"
    by (simp add: getInterestingFacts_cases out_of_quota_def)
  moreover have "\<exists>e. out_of_quota [] (facts_request ''Photosynthesis'') = Inl e"
    using u [where ai = out_of_quota] d by (simp add: out_of_quota_def)
  ultimately show ?thesis by (simp add: default_facts_def member_def)
qed

section \<open>The simulator source\<close>

lemma generateStudySimulator_fst:
  "fst (generateStudySimulator ai approvedPlan smartNotes calls) =
     (case fst (generateContentWithFallback ai ''gemini-3-pro-preview''
                  (simulator_params approvedPlan smartNotes) calls) of
        Inl e \<Rightarrow> Inl e
      | Inr response \<Rightarrow> Inr (extract_html (or_else (text_response response) [])))"
  by (simp add: generateStudySimulator_def split: prod.splits sum.splits)

text \<open>
  Claim C6, as stated, fails: the pattern asks only that \<^verbatim>\<open>```html\<close> stands in the text, so
  a fence labelled \<open>html5\<close> is taken although no fence labelled \<open>html\<close> exists, and the rest
  of the label stays at the head of the result, which is not empty.
\<close>

theorem generateStudySimulator_label_counterexample:
  "''```html5\<newline><p>hi</p>\<newline>```'' = ''```'' @ ''html5'' @ ''\<newline><p>hi</p>\<newline>'' @ ''```''
   \<and> fst (generateStudySimulator (replying ''```html5\<newline><p>hi</p>\<newline>```'') ''plan'' ''notes'' [])
       = Inr ''5\<newline><p>hi</p>\<newline>''
   \<and> fst (generateStudySimulator (replying ''```html5\<newline><p>hi</p>\<newline>```'') ''plan'' ''notes'' [])
       \<noteq> Inr []"
  by (simp add: generateStudySimulator_fst generateContentWithFallback_def generateContent_def
      replying_def or_else_def extract_html_def match_here_def)

text \<open>
  Claim C6, amended. Let the generation call resolve to a response with text \<open>raw\<close> (an
  absent text read as empty). When \<open>raw\<close> holds \<^verbatim>\<open>```html\<close> followed later by \<^verbatim>\<open>```\<close>, the
  result is exactly the text between the first \<^verbatim>\<open>```html\<close> and the next \<^verbatim>\<open>```\<close>, whatever
  stands before and after and whatever follows \<^verbatim>\<open>```html\<close>, so that a label which only
  begins with \<open>html\<close> leaves its remainder at the head of the result; when \<open>raw\<close> holds no
  \<^verbatim>\<open>```html\<close> followed later by \<^verbatim>\<open>```\<close>, the result is the empty string; and what is returned
  is always the empty string or the text between such a pair.
\<close>

theorem generateStudySimulator_extraction:
  assumes "fst (generateContentWithFallback ai ''gemini-3-pro-preview''
                  (simulator_params approvedPlan smartNotes) calls) = Inr response"
    and "raw = or_else (text_response response) []"
  shows "(raw = before @ ''```html'' @ inner @ ''```'' @ after
            \<and> \<not> str_includes (before @ ''```htm'') ''```html''
            \<and> \<not> str_includes (inner @ ''``'') ''```''
          \<longrightarrow> fst (generateStudySimulator ai approvedPlan smartNotes calls) = Inr inner)
       \<and> (\<not> (\<exists>b i a. raw = b @ ''```html'' @ i @ ''```'' @ a)
          \<longrightarrow> fst (generateStudySimulator ai approvedPlan smartNotes calls) = Inr [])
       \<and> (\<exists>code. fst (generateStudySimulator ai approvedPlan smartNotes calls) = Inr code
            \<and> (code = [] \<or> (\<exists>b a. raw = b @ ''```html'' @ code @ ''```'' @ a)))"
proof -
  have result: "fst (generateStudySimulator ai approvedPlan smartNotes calls)
      = Inr (extract_html raw)"
    using assms by (simp add: generateStudySimulator_fst)
  have first: "extract_html raw = inner"
    if "raw = before @ ''```html'' @ inner @ ''```'' @ after
        \<and> \<not> str_includes (before @ ''```htm'') ''```html''
        \<and> \<not> str_includes (inner @ ''``'') ''```''"
  proof -
    from that have "fence_match ''```html'' raw = Some inner"
      using fence_match_first [of "''```html''" before inner after]
      by (simp add: str_includes_sublist)
    then show ?thesis by (simp add: extract_html_def)
  qed
  have absent: "extract_html raw = []"
    if "\<not> (\<exists>b i a. raw = b @ ''```html'' @ i @ ''```'' @ a)"
  proof -
    from that have "fence_match ''```html'' raw = None"
      using fence_match_None_iff [of "''```html''" raw] by blast
    then show ?thesis by (simp add: extract_html_def)
  qed
  have sound: "extract_html raw = [] \<or> (\<exists>b a. raw = b @ ''```html'' @ extract_html raw @ ''```'' @ a)"
  proof (cases "fence_match ''```html'' raw")
    case None
    then show ?thesis by (simp add: extract_html_def)
  next
    case (Some found)
    from fence_match_sound [OF this] Some show ?thesis by (simp add: extract_html_def)
  qed
  from result first absent sound show ?thesis by simp
qed

theorem generateStudySimulator_extraction_witness:
  "fst (generateStudySimulator (replying ''Here you go: ```html<p>hi</p>``` Enjoy!'')
          ''plan'' ''notes'' []) = Inr ''<p>hi</p>''
   \<and> fst (generateStudySimulator (replying ''I cannot write that code.'') ''plan'' ''notes'' [])
       = Inr []
   \<and> fst (generateStudySimulator (replying ''```html<b>cut off'') ''plan'' ''notes'' []) = Inr []
   \<and> fst (generateStudySimulator (replying ''Try ```htmlbars{{x}}``` now'') ''plan'' ''notes'' [])
       = Inr ''bars{{x}}''"
proof -
  have call: "fst (generateContentWithFallback (replying t) ''gemini-3-pro-preview''
                     (simulator_params ''plan'' ''notes'') [])
      = Inr \<lparr>text_response = Some t, candidates = None\<rparr>" for t
    by (simp add: generateContentWithFallback_def generateContent_def replying_def)
  have raw: "t \<noteq> [] \<Longrightarrow>
      t = or_else (text_response \<lparr>text_response = Some t, candidates = None\<rparr>) []" for t
    by (simp add: or_else_def)
  note at = generateStudySimulator_extraction [OF call raw]
  have "fst (generateStudySimulator (replying ''Here you go: ```html<p>hi</p>``` Enjoy!'')
          ''plan'' ''notes'' []) = Inr ''<p>hi</p>''"
    using at [of "''Here you go: ```html<p>hi</p>``` Enjoy!''" "''Here you go: ''"
        "''<p>hi</p>''" "'' Enjoy!''"]
    by simp
  moreover have "fst (generateStudySimulator (replying ''I cannot write that code.'')
          ''plan'' ''notes'' []) = Inr []"
  proof -
    have "fence_match ''```html'' ''I cannot write that code.'' = None"
      by (simp add: match_here_def)
    then have "\<not> (\<exists>b i a. ''I cannot write that code.'' = b @ ''```html'' @ i @ ''```'' @ a)"
      using fence_match_None_iff [of "''```html''" "''I cannot write that code.''"] by blast
    moreover have "''I cannot write that code.'' \<noteq> []" by simp
    ultimately show ?thesis
      using at [of "''I cannot write that code.''"] by blast
  qed
  moreover have "fst (generateStudySimulator (replying ''```html<b>cut off'')
          ''plan'' ''notes'' []) = Inr []"
  proof -
    have "fence_match ''```html'' ''```html<b>cut off'' = None"
      by (simp add: match_here_def)
    then have "\<not> (\<exists>b i a. ''```html<b>cut off'' = b @ ''```html'' @ i @ ''```'' @ a)"
      using fence_match_None_iff [of "''```html''" "''```html<b>cut off''"] by blast
    moreover have "''```html<b>cut off'' \<noteq> []" by simp
    ultimately show ?thesis
      using at [of "''```html<b>cut off''"] by blast
  qed
  moreover have "fst (generateStudySimulator (replying ''Try ```htmlbars{{x}}``` now'')
          ''plan'' ''notes'' []) = Inr ''bars{{x}}''"
    using at [of "''Try ```htmlbars{{x}}``` now''" "''Try ''" "''bars{{x}}''" "'' now''"]
    by simp
  ultimately show ?thesis by simp
qed

section \<open>The analysis request\<close>

lemma fallback_issued:
  "\<exists>issued. snd (generateContentWithFallback ai m p calls) = calls @ issued \<and> issued \<noteq> []
     \<and> (\<forall>r \<in> set issued. contents r = contents p \<and> config r = config p)"
proof (cases "ai calls (with_model p m)")
  case (Inr response)
  then have "snd (generateContentWithFallback ai m p calls) = calls @ [with_model p m]"
    by (simp add: generateContentWithFallback_def generateContent_def)
  then show ?thesis by (intro exI [of _ "[with_model p m]"]) (simp add: with_model_payload)
next
  case (Inl e)
  show ?thesis
  proof (cases "not_available e")
    case True
    with Inl have "snd (generateContentWithFallback ai m p calls)
        = calls @ [with_model p m, with_model p ''gemini-2.5-flash'']"
      by (simp add: generateContentWithFallback_def generateContent_def)
    then show ?thesis
      by (intro exI [of _ "[with_model p m, with_model p ''gemini-2.5-flash'']"])
        (simp add: with_model_payload)
  next
    case False
    with Inl have "snd (generateContentWithFallback ai m p calls) = calls @ [with_model p m]"
      by (simp add: generateContentWithFallback_def generateContent_def)
    then show ?thesis by (intro exI [of _ "[with_model p m]"]) (simp add: with_model_payload)
  qed
qed

lemma analyzeStudyTopic_snd:
  "snd (analyzeStudyTopic ai topic media isVideoAnalysis searchContext calls)
     = snd (generateContentWithFallback ai ''gemini-3-pro-preview''
              (analyze_params topic media isVideoAnalysis searchContext) calls)"
  by (simp add: analyzeStudyTopic_def split: prod.splits sum.splits)

lemma concat_member: "x \<in> set xs \<Longrightarrow> \<exists>before after. concat xs = before @ x @ after"
proof -
  assume "x \<in> set xs"
  then obtain ys zs where "xs = ys @ x # zs" by (auto dest: split_list)
  then have "concat xs = concat ys @ x @ concat zs" by simp
  then show ?thesis by blast
qed

lemma systemPrompt_context_holds: "\<exists>before after. systemPrompt_context summary = before @ summary @ after"
  unfolding systemPrompt_context_def by (rule concat_member) simp

text \<open>
  Claim C7. Every request that the analysis issues (the primary one and, after a fallback,
  the secondary one) is built as follows. With a non-empty search summary, the system
  instruction is the introduction, the context block holding that summary, and the
  requirements, and the tool list is empty. With an absent or empty summary, the system
  instruction is the introduction and the requirements, and the tool list holds the web
  search. Nothing but the emptiness of the summary selects the branch.
\<close>

theorem analyzeStudyTopic_search_branch:
  "\<exists>issued. snd (analyzeStudyTopic ai topic media isVideoAnalysis searchContext calls)
              = calls @ issued
     \<and> issued \<noteq> []
     \<and> (\<forall>r \<in> set issued.
          (\<forall>summary. searchContext = Some summary \<and> summary \<noteq> [] \<longrightarrow>
             tools (config r) = Some []
             \<and> systemInstruction (config r)
                 = Some (systemPrompt_intro @ systemPrompt_context summary
                         @ systemPrompt_requirements)
             \<and> (\<exists>before after. systemPrompt_context summary = before @ summary @ after))
        \<and> (searchContext = None \<or> searchContext = Some [] \<longrightarrow>
             tools (config r) = Some [googleSearch]
             \<and> systemInstruction (config r)
                 = Some (systemPrompt_intro @ systemPrompt_requirements)))"
proof -
  let ?p = "analyze_params topic media isVideoAnalysis searchContext"
  from fallback_issued [of ai "''gemini-3-pro-preview''" ?p calls] obtain issued where
    i: "snd (generateContentWithFallback ai ''gemini-3-pro-preview'' ?p calls) = calls @ issued"
      "issued \<noteq> []" "\<forall>r \<in> set issued. config r = config ?p"
    by blast
  have "tools (config ?p) = Some (if truthy searchContext then [] else [googleSearch])"
    by (simp add: analyze_params_def analyze_tools_def no_config_def)
  moreover have "systemInstruction (config ?p) = Some (analyze_systemPrompt searchContext)"
    by (simp add: analyze_params_def no_config_def)
  ultimately have
    "(\<forall>summary. searchContext = Some summary \<and> summary \<noteq> [] \<longrightarrow>
        tools (config ?p) = Some []
        \<and> systemInstruction (config ?p)
            = Some (systemPrompt_intro @ systemPrompt_context summary @ systemPrompt_requirements)
        \<and> (\<exists>before after. systemPrompt_context summary = before @ summary @ after))
     \<and> (searchContext = None \<or> searchContext = Some [] \<longrightarrow>
        tools (config ?p) = Some [googleSearch]
        \<and> systemInstruction (config ?p) = Some (systemPrompt_intro @ systemPrompt_requirements))"
    using systemPrompt_context_holds
    by (auto simp: truthy_def analyze_systemPrompt_def)
  with i show ?thesis
    unfolding analyzeStudyTopic_snd by (intro exI [of _ issued]) simp
qed

theorem analyzeStudyTopic_search_branch_witness:
  "map (\<lambda>r. (model r, tools (config r)))
     (snd (analyzeStudyTopic pro_missing ''Photosynthesis'' None False
             (Some ''Plants turn light into sugar.'') []))
     = [(''gemini-3-pro-preview'', Some []), (''gemini-2.5-flash'', Some [])]
   \<and> map (\<lambda>r. (model r, tools (config r)))
       (snd (analyzeStudyTopic (replying ''plan'') ''Photosynthesis'' None False None []))
     = [(''gemini-3-pro-preview'', Some [googleSearch])]
   \<and> map (\<lambda>r. (model r, tools (config r)))
       (snd (analyzeStudyTopic (replying ''plan'') ''Photosynthesis'' None False (Some []) []))
     = [(''gemini-3-pro-preview'', Some [googleSearch])]"
proof -
  have na: "not_available (Error ''404 models/gemini-3-pro-preview is not found'')"
    by (simp add: not_available_def Error_def)
  let ?with = "analyze_params ''Photosynthesis'' None False (Some ''Plants turn light into sugar.'')"
  have "snd (analyzeStudyTopic pro_missing ''Photosynthesis'' None False
               (Some ''Plants turn light into sugar.'') [])
      = [with_model ?with ''gemini-3-pro-preview'', with_model ?with ''gemini-2.5-flash'']"
    using na
    by (simp add: analyzeStudyTopic_snd generateContentWithFallback_def generateContent_def
        pro_missing_def with_model_payload)
  with analyzeStudyTopic_search_branch [of pro_missing "''Photosynthesis''" None False
      "Some ''Plants turn light into sugar.''" "[]"]
  have a: "map (\<lambda>r. (model r, tools (config r)))
     (snd (analyzeStudyTopic pro_missing ''Photosynthesis'' None False
             (Some ''Plants turn light into sugar.'') []))
     = [(''gemini-3-pro-preview'', Some []), (''gemini-2.5-flash'', Some [])]"
    by (auto simp: with_model_payload)
  have "snd (analyzeStudyTopic (replying ''plan'') ''Photosynthesis'' None False sc [])
      = [with_model (analyze_params ''Photosynthesis'' None False sc) ''gemini-3-pro-preview'']"
    for sc
    by (simp add: analyzeStudyTopic_snd generateContentWithFallback_def generateContent_def
        replying_def)
  with analyzeStudyTopic_search_branch [of "replying ''plan''" "''Photosynthesis''" None False
      None "[]"]
    analyzeStudyTopic_search_branch [of "replying ''plan''" "''Photosynthesis''" None False
      "Some []" "[]"]
  have "map (\<lambda>r. (model r, tools (config r)))
       (snd (analyzeStudyTopic (replying ''plan'') ''Photosynthesis'' None False None []))
     = [(''gemini-3-pro-preview'', Some [googleSearch])]"
    "map (\<lambda>r. (model r, tools (config r)))
       (snd (analyzeStudyTopic (replying ''plan'') ''Photosynthesis'' None False (Some []) []))
     = [(''gemini-3-pro-preview'', Some [googleSearch])]"
    by (auto simp: with_model_payload)
  with a show ?thesis by simp
qed

section \<open>Video generation\<close>


lemma not_available_no_uri_error: "\<not> not_available no_uri_error"
  by (simp add: not_available_def no_uri_error_def Error_def)

lemma poll_finished:
  assumes "\<forall>i<k. pending (reported fetch 0 operation i)"
    and "reported fetch 0 operation k = Inr final" and "done_operation final"
  shows "poll fetch operation \<lparr>slept = 0, fetches = 0\<rparr>
           = Some (Inr final, \<lparr>slept = 5000 * k, fetches = k\<rparr>)"
proof -
  have "poll fetch operation \<lparr>slept = 0, fetches = 0\<rparr>
      = poll fetch final \<lparr>slept = 5000 * k, fetches = k\<rparr>"
    using poll_rounds [of k fetch "\<lparr>slept = 0, fetches = 0\<rparr>" operation final] assms by simp
  also have "\<dots> = Some (Inr final, \<lparr>slept = 5000 * k, fetches = k\<rparr>)"
    using assms(3) by (subst poll.simps) simp
  finally show ?thesis .
qed


lemma generateVeoVideo_unfold:
  "generateVeoVideo client prompt img mime ratio =
     (case generateVideos client (veo_params prompt img mime ratio) of
        Inl e \<Rightarrow>
          Some (Inl (if not_available e then veo_unavailable_error else e),
                \<lparr>slept = 0, fetches = 0\<rparr>)
      | Inr operation \<Rightarrow>
          (case poll (getVideosOperation client) operation \<lparr>slept = 0, fetches = 0\<rparr> of
             None \<Rightarrow> None
           | Some (Inl e, clock) \<Rightarrow>
               Some (Inl (if not_available e then veo_unavailable_error else e), clock)
           | Some (Inr final, clock) \<Rightarrow>
               (case first_video_uri final of
                  None \<Rightarrow> Some (Inl no_uri_error, clock)
                | Some u \<Rightarrow>
                    if u = [] then Some (Inl no_uri_error, clock) else Some (Inr u, clock))))"
  by (simp add: generateVeoVideo_def veo_try_def not_available_no_uri_error
      split: sum.splits option.splits prod.splits)

text \<open>
  Claim C8. After the job is submitted, the loop sleeps 5000 ms and fetches the status
  again, round after round. If the \<open>k\<close>-th fetch is the first to report the operation
  done, the function returns then, after \<open>k\<close> fetches and \<open>5000 * k\<close> ms of sleep: the uri
  of the first generated video when there is a non-empty one, and the error
  "Video generation failed or no URI returned" otherwise. A uri is returned only in this
  way, and while every fetch reports the operation as not done the loop never exits.
\<close>

theorem generateVeoVideo_polls_until_done:
  "(\<forall>operation k final.
       generateVideos client (veo_params prompt img mime ratio) = Inr operation
       \<and> (\<forall>i<k. pending (reported (getVideosOperation client) 0 operation i))
       \<and> reported (getVideosOperation client) 0 operation k = Inr final
       \<and> done_operation final \<longrightarrow>
       generateVeoVideo client prompt img mime ratio
         = Some (case first_video_uri final of
                   None \<Rightarrow> Inl no_uri_error
                 | Some u \<Rightarrow> if u = [] then Inl no_uri_error else Inr u,
                 \<lparr>slept = 5000 * k, fetches = k\<rparr>))
   \<and> (\<forall>u clock.
       generateVeoVideo client prompt img mime ratio = Some (Inr u, clock) \<longrightarrow>
       (\<exists>operation k final.
          generateVideos client (veo_params prompt img mime ratio) = Inr operation
          \<and> (\<forall>i<k. pending (reported (getVideosOperation client) 0 operation i))
          \<and> reported (getVideosOperation client) 0 operation k = Inr final
          \<and> done_operation final \<and> first_video_uri final = Some u \<and> u \<noteq> []
          \<and> clock = \<lparr>slept = 5000 * k, fetches = k\<rparr>))
   \<and> (\<forall>operation.
       generateVideos client (veo_params prompt img mime ratio) = Inr operation
       \<and> (\<forall>k. pending (reported (getVideosOperation client) 0 operation k)) \<longrightarrow>
       generateVeoVideo client prompt img mime ratio = None)"
proof (intro conjI allI impI)
  fix operation k final
  assume a: "generateVideos client (veo_params prompt img mime ratio) = Inr operation
       \<and> (\<forall>i<k. pending (reported (getVideosOperation client) 0 operation i))
       \<and> reported (getVideosOperation client) 0 operation k = Inr final
       \<and> done_operation final"
  then have "poll (getVideosOperation client) operation \<lparr>slept = 0, fetches = 0\<rparr>
      = Some (Inr final, \<lparr>slept = 5000 * k, fetches = k\<rparr>)"
    by (intro poll_finished) simp_all
  with a show "generateVeoVideo client prompt img mime ratio
         = Some (case first_video_uri final of
                   None \<Rightarrow> Inl no_uri_error
                 | Some u \<Rightarrow> if u = [] then Inl no_uri_error else Inr u,
                 \<lparr>slept = 5000 * k, fetches = k\<rparr>)"
    by (simp add: generateVeoVideo_unfold split: option.splits)
next
  fix u clock
  assume r: "generateVeoVideo client prompt img mime ratio = Some (Inr u, clock)"
  then obtain operation where
    s: "generateVideos client (veo_params prompt img mime ratio) = Inr operation"
    by (cases "generateVideos client (veo_params prompt img mime ratio)")
      (simp_all add: generateVeoVideo_unfold)
  with r obtain final where
    p: "poll (getVideosOperation client) operation \<lparr>slept = 0, fetches = 0\<rparr>
          = Some (Inr final, clock)"
    and u: "first_video_uri final = Some u" "u \<noteq> []"
    by (auto simp: generateVeoVideo_unfold split: option.splits sum.splits if_splits)
  from poll_exit [OF p] obtain k where
    "exit_at (getVideosOperation client) operation \<lparr>slept = 0, fetches = 0\<rparr> k (Inr final, clock)"
    by blast
  then have "(\<forall>i<k. pending (reported (getVideosOperation client) 0 operation i))
      \<and> reported (getVideosOperation client) 0 operation k = Inr final
      \<and> done_operation final \<and> clock = \<lparr>slept = 5000 * k, fetches = k\<rparr>"
    by (simp add: exit_at_def)
  with s u show "\<exists>operation k final.
          generateVideos client (veo_params prompt img mime ratio) = Inr operation
          \<and> (\<forall>i<k. pending (reported (getVideosOperation client) 0 operation i))
          \<and> reported (getVideosOperation client) 0 operation k = Inr final
          \<and> done_operation final \<and> first_video_uri final = Some u \<and> u \<noteq> []
          \<and> clock = \<lparr>slept = 5000 * k, fetches = k\<rparr>"
    by blast
next
  fix operation
  assume a: "generateVideos client (veo_params prompt img mime ratio) = Inr operation
       \<and> (\<forall>k. pending (reported (getVideosOperation client) 0 operation k))"
  then have "poll (getVideosOperation client) operation \<lparr>slept = 0, fetches = 0\<rparr> = None"
    by (intro poll_never) simp
  with a show "generateVeoVideo client prompt img mime ratio = None"
    by (simp add: generateVeoVideo_unfold)
qed

lemma never_ready_pending:
  "reported (\<lambda>i operation. Inr pending_operation) n pending_operation k = Inr pending_operation"
  by (induction k arbitrary: n) simp_all

theorem generateVeoVideo_polls_until_done_witness:
  "generateVeoVideo (ready_after 2 (finished_operation ''https://videos.example/v1.mp4''))
      ''a cat on a skateboard'' None None None
     = Some (Inr ''https://videos.example/v1.mp4'', \<lparr>slept = 10000, fetches = 2\<rparr>)
   \<and> generateVeoVideo (ready_after 1 empty_operation) ''a cat on a skateboard'' None None None
     = Some (Inl no_uri_error, \<lparr>slept = 5000, fetches = 1\<rparr>)
   \<and> generateVeoVideo never_ready ''a cat on a skateboard'' None None None = None
   \<and> (\<exists>operation k final.
         generateVideos (ready_after 2 (finished_operation ''https://videos.example/v1.mp4''))
           (veo_params ''a cat on a skateboard'' None None None) = Inr operation
         \<and> reported
              (getVideosOperation
                 (ready_after 2 (finished_operation ''https://videos.example/v1.mp4'')))
              0 operation k = Inr final
         \<and> done_operation final
         \<and> first_video_uri final = Some ''https://videos.example/v1.mp4''
         \<and> \<lparr>slept = 10000, fetches = 2\<rparr> = \<lparr>slept = 5000 * k, fetches = k\<rparr>)"
proof -
  note t = generateVeoVideo_polls_until_done
    [where prompt = "''a cat on a skateboard''" and img = None and mime = None and ratio = None]
  let ?final = "finished_operation ''https://videos.example/v1.mp4''"
  have ready: "generateVeoVideo (ready_after 2 ?final) ''a cat on a skateboard'' None None None
      = Some (Inr ''https://videos.example/v1.mp4'', \<lparr>slept = 10000, fetches = 2\<rparr>)"
  proof -
    have "generateVideos (ready_after 2 ?final)
            (veo_params ''a cat on a skateboard'' None None None) = Inr pending_operation"
      by (simp add: ready_after_def)
    moreover have "\<forall>i<Suc (Suc 0).
        pending (reported (getVideosOperation (ready_after 2 ?final)) 0 pending_operation i)"
      by (simp add: less_Suc_eq ready_after_def pending_def pending_operation_def)
    moreover have "reported (getVideosOperation (ready_after 2 ?final)) 0 pending_operation
        (Suc (Suc 0)) = Inr ?final"
      by (simp add: ready_after_def)
    moreover have "done_operation ?final" by (simp add: finished_operation_def)
    ultimately have "generateVeoVideo (ready_after 2 ?final) ''a cat on a skateboard''
        None None None
      = Some (case first_video_uri ?final of
                None \<Rightarrow> Inl no_uri_error
              | Some u \<Rightarrow> if u = [] then Inl no_uri_error else Inr u,
              \<lparr>slept = 5000 * Suc (Suc 0), fetches = Suc (Suc 0)\<rparr>)"
      using t [where client = "ready_after 2 ?final"] by blast
    then show ?thesis by (simp add: first_video_uri_def finished_operation_def)
  qed
  moreover have "generateVeoVideo (ready_after 1 empty_operation) ''a cat on a skateboard''
      None None None = Some (Inl no_uri_error, \<lparr>slept = 5000, fetches = 1\<rparr>)"
  proof -
    have "generateVideos (ready_after 1 empty_operation)
            (veo_params ''a cat on a skateboard'' None None None) = Inr pending_operation"
      by (simp add: ready_after_def)
    moreover have "\<forall>i<Suc 0.
        pending (reported (getVideosOperation (ready_after 1 empty_operation)) 0
                   pending_operation i)"
      by (simp add: pending_def pending_operation_def)
    moreover have "reported (getVideosOperation (ready_after 1 empty_operation)) 0
        pending_operation (Suc 0) = Inr empty_operation"
      by (simp add: ready_after_def)
    moreover have "done_operation empty_operation" by (simp add: empty_operation_def)
    ultimately have "generateVeoVideo (ready_after 1 empty_operation)
        ''a cat on a skateboard'' None None None
      = Some (case first_video_uri empty_operation of
                None \<Rightarrow> Inl no_uri_error
              | Some u \<Rightarrow> if u = [] then Inl no_uri_error else Inr u,
              \<lparr>slept = 5000 * Suc 0, fetches = Suc 0\<rparr>)"
      using t [where client = "ready_after 1 empty_operation"] by blast
    then show ?thesis by (simp add: first_video_uri_def empty_operation_def)
  qed
  moreover have "generateVeoVideo never_ready ''a cat on a skateboard'' None None None = None"
  proof -
    have "generateVideos never_ready (veo_params ''a cat on a skateboard'' None None None)
        = Inr pending_operation"
      by (simp add: never_ready_def)
    moreover have "reported (getVideosOperation never_ready) 0 pending_operation k
        = Inr pending_operation" for k
      by (simp add: never_ready_def never_ready_pending)
    then have "\<forall>k. pending (reported (getVideosOperation never_ready) 0 pending_operation k)"
      by (simp add: pending_def pending_operation_def)
    ultimately show ?thesis using t [where client = never_ready] by blast
  qed
  moreover have "\<exists>operation k final.
         generateVideos (ready_after 2 ?final)
           (veo_params ''a cat on a skateboard'' None None None) = Inr operation
         \<and> reported (getVideosOperation (ready_after 2 ?final)) 0 operation k = Inr final
         \<and> done_operation final
         \<and> first_video_uri final = Some ''https://videos.example/v1.mp4''
         \<and> \<lparr>slept = 10000, fetches = 2\<rparr> = \<lparr>slept = 5000 * k, fetches = k\<rparr>"
    using t [where client = "ready_after 2 ?final"] ready by blast
  ultimately show ?thesis using ready by simp
qed



end
